theory Spec2Isabelle
  imports Complex_Main "HOL-Library.Sublist"
begin

section \<open>Python values, errors and string primitives\<close>

text \<open>
  The program is Python. Its exceptions are values of the type \<open>error\<close>; a function that
  can raise returns \<open>error + 'a\<close> with \<open>Inl\<close> for the exception. Strings are
  \<open>string\<close>; a character stands for one code point below 256. \<open>Unmodelled\<close> is not
  an exception of Python: a model of a library function returns it on an input outside the
  fragment of the library that it covers, and says so where it is defined.
  \<open>SystemExit\<close> stands for the exceptions that are not of the class \<open>Exception\<close>
  (\<open>SystemExit\<close>, \<open>KeyboardInterrupt\<close>, \<open>GeneratorExit\<close>): a handler
  \<open>except Exception\<close> lets them pass. \<open>ValidationError\<close> is the exception of the
  pydantic library.
\<close>

datatype pykey = KStr string | KInt int

datatype error =
    ValueError string
  | NotImplementedError
  | IndexError
  | KeyError pykey
  | TypeError
  | AttributeError
  | AssertionError string
  | JSONDecodeError
  | RuntimeError string
  | UnboundLocalError
  | RecursionError
  | ValidationError string
  | SystemExit string
  | Unmodelled string

text \<open>
  Decoded JSON and YAML documents: \<open>dict\<close> is an association list in insertion order,
  keys are strings or integers (a YAML document may carry the numeric key \<open>200\<close>). A
  float is carried as its literal text, of the JSON grammar.
\<close>

datatype pyval =
    PNone
  | PBool bool
  | PInt int
  | PFloat string
  | PStr string
  | PList "pyval list"
  | PDict "(pykey \<times> pyval) list"

text \<open>\<open>str.isspace\<close> for one code point below 256; also the class \<open>\s\<close> of \<open>re\<close>.\<close>

definition is_space :: "char \<Rightarrow> bool" where
  "is_space c = (of_char c \<in> {9, 10, 11, 12, 13, 28, 29, 30, 31, 32, 133, 160 :: nat})"

definition newline :: char where
  "newline = CHR 0x0A"

definition dquote :: char where
  "dquote = CHR 0x22"

text \<open>\<open>s.strip()\<close>, \<open>s.lstrip()\<close> and \<open>s.strip(chars)\<close>.\<close>

definition py_lstrip :: "string \<Rightarrow> string" where
  "py_lstrip s = dropWhile is_space s"

definition py_strip :: "string \<Rightarrow> string" where
  "py_strip s = rev (dropWhile is_space (rev (dropWhile is_space s)))"

definition strip_chars :: "string \<Rightarrow> string \<Rightarrow> string" where
  "strip_chars chars s =
     rev (dropWhile (\<lambda>c. c \<in> set chars) (rev (dropWhile (\<lambda>c. c \<in> set chars) s)))"

text \<open>\<open>s.startswith(p)\<close>, \<open>s.endswith(p)\<close>, \<open>p in s\<close>.\<close>

fun starts_with :: "string \<Rightarrow> string \<Rightarrow> bool" where
  "starts_with s [] = True"
| "starts_with [] (p # ps) = False"
| "starts_with (c # cs) (p # ps) = (c = p \<and> starts_with cs ps)"

definition ends_with :: "string \<Rightarrow> string \<Rightarrow> bool" where
  "ends_with s p = starts_with (rev s) (rev p)"

fun contains :: "string \<Rightarrow> string \<Rightarrow> bool" where
  "contains [] p = (p = [])"
| "contains (c # cs) p = (starts_with (c # cs) p \<or> contains cs p)"

text \<open>
  \<open>s.split(sep)\<close> for a non-empty separator: the pieces between the occurrences of
  \<open>sep\<close> found from the left, an occurrence never overlapping the one before.
\<close>

function py_split :: "string \<Rightarrow> string \<Rightarrow> string list" where
  "py_split sep [] = [[]]"
| "py_split sep (c # cs) =
     (if sep \<noteq> [] \<and> starts_with (c # cs) sep
      then [] # py_split sep (drop (length sep) (c # cs))
      else (case py_split sep cs of
              [] \<Rightarrow> [[c]]
            | p # ps \<Rightarrow> (c # p) # ps))"
  by pat_completeness auto
termination
  by (relation "measure (\<lambda>(sep, s). length s)") (auto simp: neq_Nil_conv)

text \<open>\<open>sep.join(xs)\<close>.\<close>

fun py_join :: "string \<Rightarrow> string list \<Rightarrow> string" where
  "py_join sep [] = []"
| "py_join sep [x] = x"
| "py_join sep (x # y # ys) = x @ sep @ py_join sep (y # ys)"

text \<open>\<open>xs[i]\<close> for a non-negative index: out of range raises.\<close>

definition get_item :: "'a list \<Rightarrow> nat \<Rightarrow> error + 'a" where
  "get_item xs i = (if i < length xs then Inr (xs ! i) else Inl IndexError)"

section \<open>JSON repair (utils/utils.py)\<close>

text \<open>
  \<open>json.loads\<close> belongs to the standard library. The functions of the program that call
  it take it as the parameter \<open>loads\<close>: the decoded document, or the exception raised,
  which is \<open>JSONDecodeError\<close> on a text that is not JSON and may be another one
  (\<open>RecursionError\<close> on a text nested too deeply, \<open>ValueError\<close> on an integer of
  too many digits). The program catches \<open>JSONDecodeError\<close> only.
\<close>

type_synonym json_loads = "string \<Rightarrow> error + pyval"

datatype repaired = RStr string | RJson pyval

definition brackets :: "string list" where
  "brackets = [''['', '']'', ''{'', ''}'']"

definition closers :: "string list" where
  "closers = ['']'', ''}'', ''],'', ''},'']"

definition ends_with_any :: "string \<Rightarrow> string list \<Rightarrow> bool" where
  "ends_with_any line sufs = list_ex (ends_with line) sufs"

text \<open>The first statement of \<open>fix_json_error\<close>.\<close>

definition trim_json :: "string \<Rightarrow> string" where
  "trim_json data = strip_chars ''`'' (strip_chars '','' (strip_chars [dquote] (py_strip data)))"

text \<open>
  One pass of the body of \<open>for i in range(len(data))\<close>: \<open>line\<close> is read once, both
  \<open>data[i + 1]\<close> are read only where the \<open>and\<close> reaches them, and an index past the end
  raises.
\<close>

definition fix_line :: "string list \<Rightarrow> nat \<Rightarrow> error + string list" where
  "fix_line data i =
     (let line = data ! i in
      if line \<in> set brackets then Inr data
      else if ends_with_any line brackets then Inr data
      else
        (case (if \<not> ends_with line '','' then
                 (case get_item data (i + 1) of
                    Inl e \<Rightarrow> Inl e
                  | Inr nxt \<Rightarrow>
                      Inr (if nxt \<notin> set closers then data[i := data ! i @ '',''] else data))
               else Inr data) of
           Inl e \<Rightarrow> Inl e
         | Inr data1 \<Rightarrow>
             (case get_item data1 (i + 1) of
                Inl e \<Rightarrow> Inl e
              | Inr nxt \<Rightarrow>
                  Inr (if nxt \<in> set closers \<and> ends_with line '',''
                       then data1[i := butlast line] else data1))))"

fun fix_lines :: "nat list \<Rightarrow> string list \<Rightarrow> error + string list" where
  "fix_lines [] data = Inr data"
| "fix_lines (i # is) data =
     (case fix_line data i of
        Inl e \<Rightarrow> Inl e
      | Inr data' \<Rightarrow> fix_lines is data')"

definition fix_json_error :: "json_loads \<Rightarrow> string \<Rightarrow> bool \<Rightarrow> error + repaired" where
  "fix_json_error loads data0 return_str =
     (let data = trim_json data0 in
      case loads data of
        Inr _ \<Rightarrow> Inr (RStr data)
      | Inl raised \<Rightarrow>
          if raised \<noteq> JSONDecodeError then Inl raised
          else
            (let lines = map py_strip (py_split [newline] data) in
             case fix_lines [0 ..< length lines] lines of
               Inl e \<Rightarrow> Inl e
             | Inr lines' \<Rightarrow>
                 (let joined = py_join '' '' lines' in
                  if \<not> return_str then
                    (case loads joined of
                       Inl e \<Rightarrow> Inl e
                     | Inr v \<Rightarrow> Inr (RJson v))
                  else Inr (RStr joined))))"

subsection \<open>A reference model of \<open>json.loads\<close>\<close>

text \<open>
  The decoder of the standard library, for texts of code points below 256: whitespace is
  space, tab, line feed and carriage return; a string may not hold a control character;
  an object with a repeated key keeps the last value at the first position. Three kinds
  of text are outside the model, and the result on them is \<open>Unmodelled\<close>: a \<open>\u\<close>
  escape of a code point from 256 on, which the character type cannot hold; a text nested
  more than \<open>max_nesting\<close> deep, where the interpreter raises \<open>RecursionError\<close> at a
  depth that depends on its state; and an integer of more than \<open>max_int_digits\<close>
  digits, where the recent interpreters raise \<open>ValueError\<close>. The recursion is bounded
  by the length of the text, every call consuming a character.
\<close>

definition max_nesting :: nat where
  "max_nesting = 100"

definition max_int_digits :: nat where
  "max_int_digits = 4300"

definition is_json_ws :: "char \<Rightarrow> bool" where
  "is_json_ws c = (c \<in> set [CHR '' '', CHR 0x09, CHR 0x0A, CHR 0x0D])"

definition skip_ws :: "string \<Rightarrow> string" where
  "skip_ws s = dropWhile is_json_ws s"

definition is_digit :: "char \<Rightarrow> bool" where
  "is_digit c = ((48::nat) \<le> of_char c \<and> of_char c \<le> (57::nat))"

definition digits_val :: "string \<Rightarrow> nat" where
  "digits_val ds = foldl (\<lambda>a c. 10 * a + (of_char c - 48)) 0 ds"

definition hex_val :: "char \<Rightarrow> nat option" where
  "hex_val c =
     (let n = (of_char c :: nat) in
      if 48 \<le> n \<and> n \<le> 57 then Some (n - 48)
      else if 97 \<le> n \<and> n \<le> 102 then Some (n - 87)
      else if 65 \<le> n \<and> n \<le> 70 then Some (n - 55)
      else None)"

definition hex4 :: "string \<Rightarrow> nat option" where
  "hex4 s =
     (case map hex_val (take 4 s) of
        [Some a, Some b, Some c, Some d] \<Rightarrow> Some (((a * 16 + b) * 16 + c) * 16 + d)
      | _ \<Rightarrow> None)"

definition unescape :: "char \<Rightarrow> char option" where
  "unescape e =
     (if e = dquote then Some dquote
      else if e = CHR 0x5C then Some (CHR 0x5C)
      else if e = CHR ''/'' then Some (CHR ''/'')
      else if e = CHR ''b'' then Some (CHR 0x08)
      else if e = CHR ''f'' then Some (CHR 0x0C)
      else if e = CHR ''n'' then Some (CHR 0x0A)
      else if e = CHR ''r'' then Some (CHR 0x0D)
      else if e = CHR ''t'' then Some (CHR 0x09)
      else None)"

text \<open>The text after an opening quote, up to the closing one.\<close>

fun scan_string :: "string \<Rightarrow> string \<Rightarrow> error + (string \<times> string)" where
  "scan_string acc [] = Inl JSONDecodeError"
| "scan_string acc (c # cs) =
     (if c = dquote then Inr (rev acc, cs)
      else if c = CHR 0x5C then
        (case cs of
           [] \<Rightarrow> Inl JSONDecodeError
         | e # cs' \<Rightarrow>
             (if e = CHR ''u'' then
                (case hex4 cs' of
                   None \<Rightarrow> Inl JSONDecodeError
                 | Some n \<Rightarrow>
                     if n < 256 then scan_string (char_of n # acc) (drop 4 cs')
                     else Inl (Unmodelled ''code point''))
              else
                (case unescape e of
                   None \<Rightarrow> Inl JSONDecodeError
                 | Some ch \<Rightarrow> scan_string (ch # acc) cs')))
      else if (of_char c :: nat) < 32 then Inl JSONDecodeError
      else scan_string (c # acc) cs)"

text \<open>
  A number: an optional minus, \<open>0\<close> or a digit string without a leading zero, then an
  optional fraction and an optional exponent; an integer when both are absent. A float
  keeps its literal.
\<close>

definition scan_exponent :: "string \<Rightarrow> string \<times> string" where
  "scan_exponent s =
     (case s of
        e # r \<Rightarrow>
          if e = CHR ''e'' \<or> e = CHR ''E'' then
            (case r of
               g # d # ds \<Rightarrow>
                 if (g = CHR ''+'' \<or> g = CHR ''-'') \<and> is_digit d
                 then (e # g # d # takeWhile is_digit ds, dropWhile is_digit ds)
                 else if is_digit g
                 then (e # g # takeWhile is_digit (d # ds), dropWhile is_digit (d # ds))
                 else ([], s)
             | [g] \<Rightarrow> if is_digit g then ([e, g], []) else ([], s)
             | [] \<Rightarrow> ([], s))
          else ([], s)
      | [] \<Rightarrow> ([], s))"

definition scan_number :: "string \<Rightarrow> (error + pyval \<times> string) option" where
  "scan_number s =
     (let neg = starts_with s ''-'';
          s1 = (if neg then tl s else s)
      in case s1 of
           [] \<Rightarrow> None
         | d # ds \<Rightarrow>
             if \<not> is_digit d then None
             else
               (let ip = (if d = CHR ''0'' then [d] else d # takeWhile is_digit ds);
                    r1 = (if d = CHR ''0'' then ds else dropWhile is_digit ds);
                    has_frac = (case r1 of p # q # qs \<Rightarrow> p = CHR ''.'' \<and> is_digit q | _ \<Rightarrow> False);
                    frac = (if has_frac then CHR ''.'' # takeWhile is_digit (tl r1) else []);
                    r2 = (if has_frac then dropWhile is_digit (tl r1) else r1);
                    ex = fst (scan_exponent r2);
                    r3 = snd (scan_exponent r2)
                in if frac = [] \<and> ex = []
                   then (if max_int_digits < length ip then Some (Inl (Unmodelled ''digits''))
                         else Some (Inr (PInt ((if neg then - 1 else 1) * int (digits_val ip)), r3)))
                   else Some (Inr (PFloat ((if neg then ''-'' else []) @ ip @ frac @ ex), r3))))"

fun dict_set :: "pykey \<Rightarrow> pyval \<Rightarrow> (pykey \<times> pyval) list \<Rightarrow> (pykey \<times> pyval) list" where
  "dict_set k v [] = [(k, v)]"
| "dict_set k v ((k', v') # d) = (if k = k' then (k, v) # d else (k', v') # dict_set k v d)"

text \<open>
  The value at the head of a text and the text after it. The first argument bounds the
  number of calls, the second the nesting still allowed.
\<close>

fun parse_value :: "nat \<Rightarrow> nat \<Rightarrow> string \<Rightarrow> error + (pyval \<times> string)"
  and parse_members ::
    "nat \<Rightarrow> nat \<Rightarrow> (pykey \<times> pyval) list \<Rightarrow> string \<Rightarrow> error + (pyval \<times> string)"
  and parse_elements :: "nat \<Rightarrow> nat \<Rightarrow> pyval list \<Rightarrow> string \<Rightarrow> error + (pyval \<times> string)"
where
  "parse_value 0 depth s = Inl (Unmodelled ''calls'')"
| "parse_value (Suc n) depth [] = Inl JSONDecodeError"
| "parse_value (Suc n) depth (c # cs) =
     (if c = dquote then
        (case scan_string [] cs of
           Inl e \<Rightarrow> Inl e
         | Inr (str, r) \<Rightarrow> Inr (PStr str, r))
      else if c = CHR ''{'' then
        (case skip_ws cs of
           [] \<Rightarrow> Inl JSONDecodeError
         | d # ds \<Rightarrow>
             if depth = 0 then Inl (Unmodelled ''nesting'')
             else if d = CHR ''}'' then Inr (PDict [], ds)
             else if d = dquote then parse_members n (depth - 1) [] ds
             else Inl JSONDecodeError)
      else if c = CHR ''['' then
        (case skip_ws cs of
           [] \<Rightarrow> Inl JSONDecodeError
         | d # ds \<Rightarrow>
             if depth = 0 then Inl (Unmodelled ''nesting'')
             else if d = CHR '']'' then Inr (PList [], ds)
             else parse_elements n (depth - 1) [] (d # ds))
      else if starts_with (c # cs) ''null'' then Inr (PNone, drop 4 (c # cs))
      else if starts_with (c # cs) ''true'' then Inr (PBool True, drop 4 (c # cs))
      else if starts_with (c # cs) ''false'' then Inr (PBool False, drop 5 (c # cs))
      else
        (case scan_number (c # cs) of
           Some r \<Rightarrow> r
         | None \<Rightarrow>
             if starts_with (c # cs) ''NaN'' then Inr (PFloat ''NaN'', drop 3 (c # cs))
             else if starts_with (c # cs) ''Infinity'' then Inr (PFloat ''Infinity'', drop 8 (c # cs))
             else if starts_with (c # cs) ''-Infinity''
             then Inr (PFloat ''-Infinity'', drop 9 (c # cs))
             else Inl JSONDecodeError))"
| "parse_members 0 depth acc s = Inl (Unmodelled ''calls'')"
| "parse_members (Suc n) depth acc s =
     (case scan_string [] s of
        Inl e \<Rightarrow> Inl e
      | Inr (key, r) \<Rightarrow>
          (case skip_ws r of
             [] \<Rightarrow> Inl JSONDecodeError
           | c # cs \<Rightarrow>
               if c \<noteq> CHR '':'' then Inl JSONDecodeError
               else
                 (case parse_value n depth (skip_ws cs) of
                    Inl e \<Rightarrow> Inl e
                  | Inr (v, r2) \<Rightarrow>
                      (case skip_ws r2 of
                         [] \<Rightarrow> Inl JSONDecodeError
                       | d # ds \<Rightarrow>
                           if d = CHR ''}'' then Inr (PDict (dict_set (KStr key) v acc), ds)
                           else if d = CHR '','' then
                             (case skip_ws ds of
                                [] \<Rightarrow> Inl JSONDecodeError
                              | q # qs \<Rightarrow>
                                  if q = dquote
                                  then parse_members n depth (dict_set (KStr key) v acc) qs
                                  else Inl JSONDecodeError)
                           else Inl JSONDecodeError))))"
| "parse_elements 0 depth acc s = Inl (Unmodelled ''calls'')"
| "parse_elements (Suc n) depth acc s =
     (case parse_value n depth s of
        Inl e \<Rightarrow> Inl e
      | Inr (v, r) \<Rightarrow>
          (case skip_ws r of
             [] \<Rightarrow> Inl JSONDecodeError
           | d # ds \<Rightarrow>
               if d = CHR '']'' then Inr (PList (acc @ [v]), ds)
               else if d = CHR '','' then parse_elements n depth (acc @ [v]) (skip_ws ds)
               else Inl JSONDecodeError))"

definition json_loads :: json_loads where
  "json_loads s =
     (case parse_value (Suc (length s)) max_nesting (skip_ws s) of
        Inl e \<Rightarrow> Inl e
      | Inr (v, r) \<Rightarrow> if skip_ws r = [] then Inr v else Inl JSONDecodeError)"

section \<open>The Caller's turn parser (model/caller.py)\<close>

text \<open>
  \<open>find_sub p s\<close> cuts \<open>s\<close> at the leftmost occurrence of \<open>p\<close>: the text before it and
  the text after it.
\<close>

fun find_sub :: "string \<Rightarrow> string \<Rightarrow> (string \<times> string) option" where
  "find_sub p [] = (if p = [] then Some ([], []) else None)"
| "find_sub p (c # cs) =
     (if starts_with (c # cs) p then Some ([], drop (length p) (c # cs))
      else (case find_sub p cs of
              None \<Rightarrow> None
            | Some (pre, post) \<Rightarrow> Some (c # pre, post)))"

text \<open>
  \<open>re.search(r"Operation:[\s]*(.*?)[\n]*Input:[\s]*(.*)", llm_output, re.DOTALL)\<close>, its two
  groups. The search succeeds at the leftmost \<open>Operation:\<close>, when an \<open>Input:\<close> follows it:
  \<open>[\s]*\<close> takes all the whitespace after the colon, the lazy group runs to the first
  \<open>Input:\<close> less the line feeds \<open>[\n]*\<close> takes before it, and the greedy group is the
  rest of the text after the whitespace that follows \<open>Input:\<close>.
\<close>

definition search_operation_input :: "string \<Rightarrow> (string \<times> string) option" where
  "search_operation_input llm_output =
     (case find_sub ''Operation:'' llm_output of
        None \<Rightarrow> None
      | Some (before, r1) \<Rightarrow>
          (case find_sub ''Input:'' (dropWhile is_space r1) of
             None \<Rightarrow> None
           | Some (g1, r2) \<Rightarrow>
               Some (rev (dropWhile (\<lambda>c. c = newline) (rev g1)), dropWhile is_space r2)))"

definition get_action_and_input :: "json_loads \<Rightarrow> string \<Rightarrow> error + (string \<times> repaired)" where
  "get_action_and_input loads llm_output =
     (if contains llm_output ''Execution Result:''
      then Inr (''Execution Result'',
                RStr (py_strip (last (py_split ''Execution Result:'' llm_output))))
      else
        (case search_operation_input llm_output of
           None \<Rightarrow> Inl (ValueError (''Could not parse LLM output: `'' @ llm_output @ ''`''))
         | Some (g1, g2) \<Rightarrow>
             (let action = py_strip g1 in
              if action \<notin> set [''GET'', ''POST'', ''DELETE'', ''PUT'']
              then Inl NotImplementedError
              else
                (case fix_json_error loads g2 True of
                   Inl e \<Rightarrow> Inl e
                 | Inr action_input \<Rightarrow> Inr (action, action_input)))))"

section \<open>The endpoint matcher (utils/utils.py)\<close>

record reduced_spec =
  servers :: pyval
  description :: pyval
  endpoints :: "(string \<times> pyval \<times> pyval) list"

text \<open>The class \<open>\w\<close> of \<open>re\<close> for one code point below 256: alphanumeric or underscore.\<close>

definition is_word_char :: "char \<Rightarrow> bool" where
  "is_word_char c =
     (let n = (of_char c :: nat) in
      (48 \<le> n \<and> n \<le> 57) \<or> (65 \<le> n \<and> n \<le> 90) \<or> (97 \<le> n \<and> n \<le> 122) \<or> n = 95
      \<or> n \<in> {170, 178, 179, 181, 185, 186, 188, 189, 190}
      \<or> (192 \<le> n \<and> n \<noteq> 215 \<and> n \<noteq> 247))"

definition method_names :: "string list" where
  "method_names = [''GET'', ''POST'', ''PATCH'', ''DELETE'', ''PUT'']"

text \<open>
  One match of \<open>(GET|POST|PATCH|DELETE|PUT)\s+(/\S+)*\<close> at the head of a text: the
  first alternative that is followed by whitespace; \<open>\s+\<close> takes all the whitespace; one
  round of the starred group takes a slash and the whole run of non-whitespace after it
  (at least one character), and no second round can start at the whitespace that ends the
  run. The group is empty when no round matches. The result is the method, the route and
  the number of characters matched.
\<close>

definition match_endpoint :: "string \<Rightarrow> (string \<times> string \<times> nat) option" where
  "match_endpoint s =
     (case find (\<lambda>m. starts_with s m
                     \<and> (case drop (length m) s of [] \<Rightarrow> False | c # r \<Rightarrow> is_space c))
                method_names of
        None \<Rightarrow> None
      | Some m \<Rightarrow>
          (let r = drop (length m) s;
               ws = takeWhile is_space r;
               r1 = dropWhile is_space r;
               route = (case r1 of
                          c # d # r2 \<Rightarrow>
                            if c = CHR ''/'' \<and> \<not> is_space d
                            then c # takeWhile (\<lambda>x. \<not> is_space x) (d # r2)
                            else []
                        | _ \<Rightarrow> [])
           in Some (m, route, length m + length ws + length route)))"

text \<open>
  \<open>re.findall\<close> of \<open>\b(GET|POST|PATCH|DELETE|PUT)\s+(/\S+)*\<close>: the matches from the left,
  the search resuming where a match ends. \<open>skip\<close> counts the characters of the last match
  still to pass; \<open>prev_word\<close> says whether the character before is a word character, for
  \<open>\b\<close>.
\<close>

fun findall_endpoints :: "nat \<Rightarrow> bool \<Rightarrow> string \<Rightarrow> (string \<times> string) list" where
  "findall_endpoints skip prev_word [] = []"
| "findall_endpoints skip prev_word (c # cs) =
     (if 0 < skip then findall_endpoints (skip - 1) (is_word_char c) cs
      else if prev_word then findall_endpoints 0 (is_word_char c) cs
      else
        (case match_endpoint (c # cs) of
           None \<Rightarrow> findall_endpoints 0 (is_word_char c) cs
         | Some (m, route, consumed) \<Rightarrow>
             (m, route) # findall_endpoints (consumed - 1) (is_word_char c) cs))"

definition plan_endpoints :: "string \<Rightarrow> string list" where
  "plan_endpoints plan =
     map (\<lambda>(m, route). m @ '' '' @ hd (py_split ''?'' route)) (findall_endpoints 0 False plan)"

text \<open>
  The pattern built from a catalog name, \<open>name.format(**{arg: "[^/]+" ...}) + '$'\<close>, as a
  list of tokens. The model covers the names made of \<open>{field}\<close> placeholders, the field
  of word characters and hyphens and not starting with a digit, and of characters that
  stand for themselves in a regular expression; it returns \<open>Unmodelled\<close> on any other
  name. A \<open>{\<close> that is never closed raises \<open>ValueError\<close> in \<open>str.format\<close>.
\<close>

datatype ptoken = Lit char | NoSlashPlus

definition regex_special :: "char \<Rightarrow> bool" where
  "regex_special c = (c \<in> set ''.^$*+?{}[]|()'' \<or> c = CHR 0x5C)"

definition field_ok :: "string \<Rightarrow> bool" where
  "field_ok f = (f \<noteq> [] \<and> list_all (\<lambda>c. is_word_char c \<or> c = CHR ''-'') f \<and> \<not> is_digit (hd f))"

fun compile_name :: "string \<Rightarrow> error + ptoken list"
  and compile_field :: "string \<Rightarrow> string \<Rightarrow> error + ptoken list"
where
  "compile_name [] = Inr []"
| "compile_name (c # cs) =
     (if c = CHR ''{'' then compile_field [] cs
      else if regex_special c then Inl (Unmodelled ''pattern'')
      else (case compile_name cs of
              Inl e \<Rightarrow> Inl e
            | Inr ts \<Rightarrow> Inr (Lit c # ts)))"
| "compile_field acc [] = Inl (ValueError ''expected } before end of string'')"
| "compile_field acc (c # cs) =
     (if c = CHR ''}'' then
        (if field_ok (rev acc) then
           (case compile_name cs of
              Inl e \<Rightarrow> Inl e
            | Inr ts \<Rightarrow> Inr (NoSlashPlus # ts))
         else Inl (Unmodelled ''field''))
      else compile_field (c # acc) cs)"

text \<open>
  \<open>re.match\<close> of the tokens followed by \<open>$\<close>: the end anchor holds at the end of the
  text and before a line feed that ends it; \<open>[^/]+\<close> takes one or more characters other
  than the slash.
\<close>

fun match_tokens :: "ptoken list \<Rightarrow> string \<Rightarrow> bool" where
  "match_tokens [] s = (s = [] \<or> s = [newline])"
| "match_tokens (Lit c # ts) [] = False"
| "match_tokens (Lit c # ts) (x # xs) = (x = c \<and> match_tokens ts xs)"
| "match_tokens (NoSlashPlus # ts) [] = False"
| "match_tokens (NoSlashPlus # ts) (x # xs) =
     (x \<noteq> CHR ''/'' \<and> (match_tokens (NoSlashPlus # ts) xs \<or> match_tokens ts xs))"

text \<open>The inner loop over the catalog: the first name whose pattern matches.\<close>

fun first_template_match :: "string list \<Rightarrow> string \<Rightarrow> error + string option" where
  "first_template_match [] plan_endpoint = Inr None"
| "first_template_match (name # names) plan_endpoint =
     (case compile_name name of
        Inl e \<Rightarrow> Inl e
      | Inr pattern \<Rightarrow>
          if match_tokens pattern plan_endpoint then Inr (Some name)
          else first_template_match names plan_endpoint)"

text \<open>The outer loop over the endpoints named in the plan.\<close>

fun match_plan_endpoints :: "string list \<Rightarrow> string list \<Rightarrow> error + string list" where
  "match_plan_endpoints spec_endpoints [] = Inr []"
| "match_plan_endpoints spec_endpoints (plan_endpoint # rest) =
     (if plan_endpoint \<in> set spec_endpoints then
        (case match_plan_endpoints spec_endpoints rest of
           Inl e \<Rightarrow> Inl e
         | Inr matched \<Rightarrow> Inr (plan_endpoint # matched))
      else
        (case first_template_match spec_endpoints plan_endpoint of
           Inl e \<Rightarrow> Inl e
         | Inr found \<Rightarrow>
             (case match_plan_endpoints spec_endpoints rest of
                Inl e \<Rightarrow> Inl e
              | Inr matched \<Rightarrow>
                  Inr ((case found of None \<Rightarrow> [] | Some name \<Rightarrow> [name]) @ matched))))"

definition get_matched_endpoint :: "reduced_spec \<Rightarrow> string \<Rightarrow> error + string list option" where
  "get_matched_endpoint api_spec plan =
     (let spec_endpoints = map fst (endpoints api_spec) in
      case match_plan_endpoints spec_endpoints (plan_endpoints plan) of
        Inl e \<Rightarrow> Inl e
      | Inr matched_endpoints \<Rightarrow>
          if length matched_endpoints = 0 then Inr None else Inr (Some matched_endpoints))"

section \<open>The OpenAPI reducer (utils/oas\_utils.py)\<close>

subsection \<open>Operations of Python on decoded documents\<close>

text \<open>
  The number a float literal of the JSON grammar denotes, without its sign: the digits of
  the integer part and of the fraction, scaled by the exponent.
\<close>

definition literal_exponent :: "string \<Rightarrow> int" where
  "literal_exponent ex =
     (case ex of
        e # g # ds \<Rightarrow>
          if g = CHR ''-'' then - int (digits_val ds)
          else if g = CHR ''+'' then int (digits_val ds)
          else int (digits_val (g # ds))
      | _ \<Rightarrow> 0)"

definition float_magnitude :: "string \<Rightarrow> rat" where
  "float_magnitude f =
     (let s1 = (if starts_with f ''-'' then tl f else f);
          ip = takeWhile is_digit s1;
          r1 = dropWhile is_digit s1;
          frac = (if starts_with r1 ''.'' then takeWhile is_digit (tl r1) else []);
          r2 = (if starts_with r1 ''.'' then dropWhile is_digit (tl r1) else r1);
          e = literal_exponent r2;
          m = of_nat (digits_val (ip @ frac)) / 10 ^ length frac
      in if 0 \<le> e then m * 10 ^ nat e else m / 10 ^ nat (- e))"

text \<open>
  Truth value of an object. A float is false when it is zero. The interpreter reads a
  literal to the nearest double, ties to even, so the float is zero exactly when the number
  is at most \<open>2 ^ - 1075\<close>, half the least positive double; \<open>NaN\<close> and the infinities
  are true.
\<close>

fun truthy :: "pyval \<Rightarrow> bool" where
  "truthy PNone = False"
| "truthy (PBool b) = b"
| "truthy (PInt i) = (i \<noteq> 0)"
| "truthy (PFloat f) =
     (f \<in> set [''NaN'', ''Infinity'', ''-Infinity''] \<or> 1 / 2 ^ 1075 < float_magnitude f)"
| "truthy (PStr t) = (t \<noteq> [])"
| "truthy (PList xs) = (xs \<noteq> [])"
| "truthy (PDict d) = (d \<noteq> [])"

definition key_value :: "pykey \<Rightarrow> pyval" where
  "key_value k = (case k of KStr t \<Rightarrow> PStr t | KInt i \<Rightarrow> PInt i)"

text \<open>\<open>obj[key]\<close>; a negative index counts from the end.\<close>

definition index_list :: "'a list \<Rightarrow> int \<Rightarrow> error + 'a" where
  "index_list xs i =
     (let n = int (length xs); j = (if i < 0 then n + i else i)
      in if 0 \<le> j \<and> j < n then Inr (xs ! nat j) else Inl IndexError)"

fun subscript :: "pyval \<Rightarrow> pykey \<Rightarrow> error + pyval" where
  "subscript (PDict d) k = (case map_of d k of None \<Rightarrow> Inl (KeyError k) | Some v \<Rightarrow> Inr v)"
| "subscript (PList xs) (KInt i) = index_list xs i"
| "subscript (PList xs) (KStr t) = Inl TypeError"
| "subscript (PStr t) (KInt i) = map_sum id (\<lambda>c. PStr [c]) (index_list t i)"
| "subscript (PStr t) (KStr u) = Inl TypeError"
| "subscript v k = Inl TypeError"

text \<open>\<open>key in obj\<close>.\<close>

fun py_in :: "pykey \<Rightarrow> pyval \<Rightarrow> error + bool" where
  "py_in k (PDict d) = Inr (k \<in> set (map fst d))"
| "py_in k (PList xs) = Inr (key_value k \<in> set xs)"
| "py_in (KStr t) (PStr u) = Inr (contains u t)"
| "py_in (KInt i) (PStr u) = Inl TypeError"
| "py_in k v = Inl TypeError"

text \<open>\<open>obj.get(key)\<close> and \<open>obj.get(key, default)\<close>: only a dict has the method.\<close>

fun py_get :: "pyval \<Rightarrow> pykey \<Rightarrow> pyval \<Rightarrow> error + pyval" where
  "py_get (PDict d) k dflt = Inr (case map_of d k of None \<Rightarrow> dflt | Some v \<Rightarrow> v)"
| "py_get v k dflt = Inl AttributeError"

text \<open>\<open>obj.items()\<close>.\<close>

fun py_items :: "pyval \<Rightarrow> error + (pykey \<times> pyval) list" where
  "py_items (PDict d) = Inr d"
| "py_items v = Inl AttributeError"

text \<open>The elements a \<open>for\<close> runs over: of a list, the keys of a dict, the characters of a string.\<close>

fun py_iter :: "pyval \<Rightarrow> error + pyval list" where
  "py_iter (PList xs) = Inr xs"
| "py_iter (PDict d) = Inr (map (key_value \<circ> fst) d)"
| "py_iter (PStr t) = Inr (map (\<lambda>c. PStr [c]) t)"
| "py_iter v = Inl TypeError"

text \<open>\<open>str(n)\<close> of an integer, and \<open>s.upper()\<close> on ASCII letters.\<close>

fun str_of_nat :: "nat \<Rightarrow> string" where
  "str_of_nat n =
     (if n < 10 then [char_of (48 + n)] else str_of_nat (n div 10) @ [char_of (48 + n mod 10)])"

definition str_of_int :: "int \<Rightarrow> string" where
  "str_of_int i = (if i < 0 then ''-'' @ str_of_nat (nat (- i)) else str_of_nat (nat i))"

definition str_of_key :: "pykey \<Rightarrow> string" where
  "str_of_key k = (case k of KStr t \<Rightarrow> t | KInt i \<Rightarrow> str_of_int i)"

definition to_upper :: "char \<Rightarrow> char" where
  "to_upper c = (if (97::nat) \<le> of_char c \<and> of_char c \<le> (122::nat)
      then char_of (of_char c - (32::nat)) else c)"

subsection \<open>\<open>dereference_refs\<close>\<close>

text \<open>
  \<open>_retrieve_ref_path\<close>: the path is split at the slashes, must start at \<open>#\<close>, and is
  followed from the full document by subscripts.
\<close>

fun follow_path :: "pyval \<Rightarrow> string list \<Rightarrow> error + pyval" where
  "follow_path out [] = Inr out"
| "follow_path out (component # rest) =
     (case subscript out (KStr component) of
        Inl e \<Rightarrow> Inl e
      | Inr out' \<Rightarrow> follow_path out' rest)"

definition retrieve_ref_path :: "pyval \<Rightarrow> pyval \<Rightarrow> error + pyval" where
  "retrieve_ref_path path full_spec =
     (case path of
        PStr t \<Rightarrow>
          (let components = py_split ''/'' t in
           if hd components \<noteq> ''#''
           then Inl (RuntimeError
                  ''All $refs I've seen so far are uri fragments (start with hash).'')
           else follow_path full_spec (tl components))
      | _ \<Rightarrow> Inl AttributeError)"

text \<open>
  \<open>_dereference_refs\<close>, always called with \<open>stop=False\<close>. A reference may lead back to
  an object that holds it, and the interpreter then stops at its recursion limit: the first
  argument is the number of nested calls left, and \<open>RecursionError\<close> is the result when
  none is. A \<open>$ref\<close> key returns the dereferenced target at once, whatever the keys before
  it gave.
\<close>

fun dereference :: "nat \<Rightarrow> pyval \<Rightarrow> pyval \<Rightarrow> error + pyval"
  and dereference_items ::
    "nat \<Rightarrow> pyval \<Rightarrow> (pykey \<times> pyval) list \<Rightarrow> (pykey \<times> pyval) list \<Rightarrow> error + pyval"
  and dereference_list :: "nat \<Rightarrow> pyval \<Rightarrow> pyval list \<Rightarrow> error + pyval list"
where
  "dereference 0 full_spec obj = Inl RecursionError"
| "dereference (Suc n) full_spec (PDict d) = dereference_items n full_spec d []"
| "dereference (Suc n) full_spec (PList xs) =
     (case dereference_list n full_spec xs of
        Inl e \<Rightarrow> Inl e
      | Inr ys \<Rightarrow> Inr (PList ys))"
| "dereference (Suc n) full_spec PNone = Inr PNone"
| "dereference (Suc n) full_spec (PBool b) = Inr (PBool b)"
| "dereference (Suc n) full_spec (PInt i) = Inr (PInt i)"
| "dereference (Suc n) full_spec (PFloat f) = Inr (PFloat f)"
| "dereference (Suc n) full_spec (PStr t) = Inr (PStr t)"
| "dereference_items n full_spec [] obj_out = Inr (PDict obj_out)"
| "dereference_items n full_spec ((k, v) # rest) obj_out =
     (if k = KStr ''$ref'' then
        (case retrieve_ref_path v full_spec of
           Inl e \<Rightarrow> Inl e
         | Inr target \<Rightarrow> dereference n full_spec target)
      else
        (case v of
           PList xs \<Rightarrow>
             (case dereference_list n full_spec xs of
                Inl e \<Rightarrow> Inl e
              | Inr ys \<Rightarrow> dereference_items n full_spec rest (obj_out @ [(k, PList ys)]))
         | PDict d \<Rightarrow>
             (case dereference n full_spec (PDict d) of
                Inl e \<Rightarrow> Inl e
              | Inr v' \<Rightarrow> dereference_items n full_spec rest (obj_out @ [(k, v')]))
         | _ \<Rightarrow> dereference_items n full_spec rest (obj_out @ [(k, v)])))"
| "dereference_list n full_spec [] = Inr []"
| "dereference_list n full_spec (el # els) =
     (case dereference n full_spec el of
        Inl e \<Rightarrow> Inl e
      | Inr el' \<Rightarrow>
          (case dereference_list n full_spec els of
             Inl e \<Rightarrow> Inl e
           | Inr els' \<Rightarrow> Inr (el' # els')))"

definition dereference_refs :: "nat \<Rightarrow> pyval \<Rightarrow> pyval \<Rightarrow> error + pyval" where
  "dereference_refs limit spec_obj full_spec = dereference limit full_spec spec_obj"

subsection \<open>\<open>merge_allof_properties\<close>\<close>

text \<open>\<open>d.update(other)\<close> for a dict \<open>other\<close>: a key already there keeps its place.\<close>

definition dict_update :: "(pykey \<times> pyval) list \<Rightarrow> (pykey \<times> pyval) list \<Rightarrow> (pykey \<times> pyval) list" where
  "dict_update d other = foldl (\<lambda>acc (k, v). dict_set k v acc) d other"

text \<open>
  The argument of \<open>update\<close>: a dict; an object that cannot be iterated raises; the update
  from a sequence of pairs is not modelled.
\<close>

fun update_arg :: "pyval \<Rightarrow> error + (pykey \<times> pyval) list" where
  "update_arg (PDict d) = Inr d"
| "update_arg (PList xs) = Inl (Unmodelled ''dict.update'')"
| "update_arg (PStr t) = Inl (Unmodelled ''dict.update'')"
| "update_arg v = Inl TypeError"

text \<open>
  \<open>merge\<close>: \<open>properties\<close> and \<open>required\<close> are the two growing fields of \<open>merged\<close>. The
  first argument bounds the nesting of calls, as in \<open>dereference\<close>.
\<close>

fun merge ::
  "nat \<Rightarrow> pyval list \<Rightarrow> (pykey \<times> pyval) list \<Rightarrow> pyval list
     \<Rightarrow> error + ((pykey \<times> pyval) list \<times> pyval list)"
where
  "merge n [] properties required = Inr (properties, required)"
| "merge n (partial_schema # rest) properties required =
     (case py_in (KStr ''allOf'') partial_schema of
        Inl e \<Rightarrow> Inl e
      | Inr has_allof \<Rightarrow>
          if has_allof then
            (case n of
               0 \<Rightarrow> Inl RecursionError
             | Suc m \<Rightarrow>
                 (case subscript partial_schema (KStr ''allOf'') of
                    Inl e \<Rightarrow> Inl e
                  | Inr sub \<Rightarrow>
                      (case py_iter sub of
                         Inl e \<Rightarrow> Inl e
                       | Inr subs \<Rightarrow>
                           (case merge m subs [] [] of
                              Inl e \<Rightarrow> Inl e
                            | Inr (tmp_properties, tmp_required) \<Rightarrow>
                                merge n rest (dict_update properties tmp_properties)
                                  (required @ tmp_required)))))
          else
            (case (case py_in (KStr ''properties'') partial_schema of
                     Inl e \<Rightarrow> Inl e
                   | Inr has_properties \<Rightarrow>
                       if has_properties then
                         (case subscript partial_schema (KStr ''properties'') of
                            Inl e \<Rightarrow> Inl e
                          | Inr ps \<Rightarrow>
                              (case update_arg ps of
                                 Inl e \<Rightarrow> Inl e
                               | Inr other \<Rightarrow> Inr (dict_update properties other)))
                       else Inr properties) of
               Inl e \<Rightarrow> Inl e
             | Inr properties' \<Rightarrow>
                 (case (case py_in (KStr ''required'') partial_schema of
                          Inl e \<Rightarrow> Inl e
                        | Inr has_required \<Rightarrow>
                            if has_required then
                              (case subscript partial_schema (KStr ''required'') of
                                 Inl e \<Rightarrow> Inl e
                               | Inr rs \<Rightarrow>
                                   (case py_iter rs of
                                      Inl e \<Rightarrow> Inl e
                                    | Inr extra \<Rightarrow> Inr (required @ extra)))
                            else Inr required) of
                    Inl e \<Rightarrow> Inl e
                  | Inr required' \<Rightarrow> merge n rest properties' required')))"

definition merged_schema :: "(pykey \<times> pyval) list \<Rightarrow> pyval list \<Rightarrow> pyval" where
  "merged_schema properties required =
     PDict [(KStr ''properties'', PDict properties), (KStr ''required'', PList required),
            (KStr ''type'', PStr ''object'')]"

fun merge_allof :: "nat \<Rightarrow> pyval \<Rightarrow> error + pyval"
  and merge_allof_items ::
    "nat \<Rightarrow> (pykey \<times> pyval) list \<Rightarrow> (pykey \<times> pyval) list \<Rightarrow> error + pyval"
  and merge_allof_list :: "nat \<Rightarrow> pyval list \<Rightarrow> error + pyval list"
where
  "merge_allof 0 obj = Inl RecursionError"
| "merge_allof (Suc n) (PDict d) = merge_allof_items n d []"
| "merge_allof (Suc n) (PList xs) =
     (case merge_allof_list n xs of
        Inl e \<Rightarrow> Inl e
      | Inr ys \<Rightarrow> Inr (PList ys))"
| "merge_allof (Suc n) PNone = Inr PNone"
| "merge_allof (Suc n) (PBool b) = Inr (PBool b)"
| "merge_allof (Suc n) (PInt i) = Inr (PInt i)"
| "merge_allof (Suc n) (PFloat f) = Inr (PFloat f)"
| "merge_allof (Suc n) (PStr t) = Inr (PStr t)"
| "merge_allof_items n [] obj_out = Inr (PDict obj_out)"
| "merge_allof_items n ((k, v) # rest) obj_out =
     (if k = KStr ''allOf'' then
        (case py_iter v of
           Inl e \<Rightarrow> Inl e
         | Inr to_merge \<Rightarrow>
             (case merge n to_merge [] [] of
                Inl e \<Rightarrow> Inl e
              | Inr (properties, required) \<Rightarrow>
                  merge_allof n (merged_schema properties required)))
      else
        (case v of
           PList xs \<Rightarrow>
             (case merge_allof_list n xs of
                Inl e \<Rightarrow> Inl e
              | Inr ys \<Rightarrow> merge_allof_items n rest (obj_out @ [(k, PList ys)]))
         | PDict d \<Rightarrow>
             (case merge_allof n (PDict d) of
                Inl e \<Rightarrow> Inl e
              | Inr v' \<Rightarrow> merge_allof_items n rest (obj_out @ [(k, v')]))
         | _ \<Rightarrow> merge_allof_items n rest (obj_out @ [(k, v)])))"
| "merge_allof_list n [] = Inr []"
| "merge_allof_list n (el # els) =
     (case merge_allof n el of
        Inl e \<Rightarrow> Inl e
      | Inr el' \<Rightarrow>
          (case merge_allof_list n els of
             Inl e \<Rightarrow> Inl e
           | Inr els' \<Rightarrow> Inr (el' # els')))"

definition merge_allof_properties :: "nat \<Rightarrow> pyval \<Rightarrow> error + pyval" where
  "merge_allof_properties limit obj = merge_allof limit obj"

subsection \<open>\<open>reduce_openapi_spec\<close>\<close>

text \<open>Sequencing of steps that can raise: the first exception ends the run.\<close>

definition bind :: "error + 'a \<Rightarrow> ('a \<Rightarrow> error + 'b) \<Rightarrow> error + 'b" where
  "bind m f = (case m of Inl e \<Rightarrow> Inl e | Inr x \<Rightarrow> f x)"

text \<open>\<open>[parameter for parameter in parameters if parameter.get("required")]\<close>.\<close>

fun filter_required :: "pyval list \<Rightarrow> error + pyval list" where
  "filter_required [] = Inr []"
| "filter_required (parameter # rest) =
     (case py_get parameter (KStr ''required'') PNone of
        Inl e \<Rightarrow> Inl e
      | Inr r \<Rightarrow>
          (case filter_required rest of
             Inl e \<Rightarrow> Inl e
           | Inr kept \<Rightarrow> Inr (if truthy r then parameter # kept else kept)))"

definition reduce_endpoint_docs :: "bool \<Rightarrow> pyval \<Rightarrow> error + pyval" where
  "reduce_endpoint_docs only_required docs =
     bind (py_get docs (KStr ''description'') PNone) (\<lambda>description_value.
     bind (py_get docs (KStr ''parameters'') PNone) (\<lambda>parameters.
     bind (if truthy parameters then
             bind (py_iter parameters) (\<lambda>ps.
             bind (if only_required then filter_required ps else Inr ps) (\<lambda>kept.
             Inr [(KStr ''parameters'', PList kept)]))
           else Inr []) (\<lambda>out_parameters.
     bind (py_get docs (KStr ''requestBody'') PNone) (\<lambda>request_body.
     bind (subscript docs (KStr ''responses'')) (\<lambda>responses.
     bind (py_in (KStr ''200'') responses) (\<lambda>has_str.
     bind (if has_str then
             bind (subscript responses (KStr ''200'')) (\<lambda>r. Inr [(KStr ''responses'', r)])
           else
             bind (py_in (KInt 200) responses) (\<lambda>has_int.
             if has_int then
               bind (subscript responses (KInt 200)) (\<lambda>r. Inr [(KStr ''responses'', r)])
             else Inr [])) (\<lambda>out_responses.
     Inr (PDict
           ((if truthy description_value then [(KStr ''description'', description_value)] else [])
            @ out_parameters
            @ (if truthy request_body then [(KStr ''requestBody'', request_body)] else [])
            @ out_responses)))))))))"

text \<open>The first comprehension: the operations of one path, then of all paths.\<close>

definition operation_names :: "string list" where
  "operation_names = [''get'', ''post'', ''patch'', ''delete'', ''put'']"

fun collect_operations ::
  "pykey \<Rightarrow> (pykey \<times> pyval) list \<Rightarrow> error + (string \<times> pyval \<times> pyval) list" where
  "collect_operations route [] = Inr []"
| "collect_operations route ((operation_name, docs) # rest) =
     (if operation_name \<in> set (map KStr operation_names) then
        (case py_get docs (KStr ''description'') PNone of
           Inl e \<Rightarrow> Inl e
         | Inr d \<Rightarrow>
             (case collect_operations route rest of
                Inl e \<Rightarrow> Inl e
              | Inr eps \<Rightarrow>
                  Inr ((map to_upper (str_of_key operation_name) @ '' '' @ str_of_key route,
                        d, docs) # eps)))
      else collect_operations route rest)"

fun collect_paths :: "(pykey \<times> pyval) list \<Rightarrow> error + (string \<times> pyval \<times> pyval) list" where
  "collect_paths [] = Inr []"
| "collect_paths ((route, operation) # rest) =
     (case py_items operation of
        Inl e \<Rightarrow> Inl e
      | Inr ops \<Rightarrow>
          (case collect_operations route ops of
             Inl e \<Rightarrow> Inl e
           | Inr eps \<Rightarrow>
               (case collect_paths rest of
                  Inl e \<Rightarrow> Inl e
                | Inr others \<Rightarrow> Inr (eps @ others))))"

text \<open>A comprehension that rebuilds the documents of the endpoints, in order.\<close>

fun map_docs ::
  "(pyval \<Rightarrow> error + pyval) \<Rightarrow> (string \<times> pyval \<times> pyval) list
     \<Rightarrow> error + (string \<times> pyval \<times> pyval) list" where
  "map_docs f [] = Inr []"
| "map_docs f ((name, description_value, docs) # rest) =
     (case f docs of
        Inl e \<Rightarrow> Inl e
      | Inr docs' \<Rightarrow>
          (case map_docs f rest of
             Inl e \<Rightarrow> Inl e
           | Inr rest' \<Rightarrow> Inr ((name, description_value, docs') # rest')))"

text \<open>
  \<open>reduce_openapi_spec(spec, dereference, only_required, merge_allof)\<close>; \<open>limit\<close> is the
  recursion limit of the interpreter. Its steps 1 to 3, up to the merge of \<open>allOf\<close>, give
  the included operations with their full documents; the last step reduces each document
  and the result is built.
\<close>

definition included_operations ::
  "nat \<Rightarrow> pyval \<Rightarrow> bool \<Rightarrow> bool \<Rightarrow> error + (string \<times> pyval \<times> pyval) list" where
  "included_operations limit spec deref merge_all =
     bind (subscript spec (KStr ''paths'')) (\<lambda>paths.
     bind (py_items paths) (\<lambda>path_items.
     bind (collect_paths path_items) (\<lambda>endpoints0.
     bind (if deref
           then map_docs (\<lambda>docs. dereference_refs limit docs spec) endpoints0
           else Inr endpoints0) (\<lambda>endpoints1.
     if merge_all
     then map_docs (merge_allof_properties limit) endpoints1
     else Inr endpoints1))))"

definition reduce_openapi_spec ::
  "nat \<Rightarrow> pyval \<Rightarrow> bool \<Rightarrow> bool \<Rightarrow> bool \<Rightarrow> error + reduced_spec" where
  "reduce_openapi_spec limit spec deref only_required merge_all =
     bind (included_operations limit spec deref merge_all) (\<lambda>endpoints2.
     bind (map_docs (reduce_endpoint_docs only_required) endpoints2) (\<lambda>endpoints3.
     bind (subscript spec (KStr ''servers'')) (\<lambda>servers_value.
     bind (subscript spec (KStr ''info'')) (\<lambda>info.
     bind (py_get info (KStr ''description'') (PStr [])) (\<lambda>description_value.
     Inr \<lparr>servers = servers_value, description = description_value,
          endpoints = endpoints3\<rparr>)))))"

text \<open>
  Documents of the shape an OpenAPI operation has: \<open>parameters\<close>, when present, is a list
  of objects, and \<open>responses\<close> is an object. They state the inputs of the properties
  below; the program does not check them.
\<close>

fun is_dict :: "pyval \<Rightarrow> bool" where
  "is_dict (PDict d) = True"
| "is_dict v = False"

definition well_formed_parameters :: "(pykey \<times> pyval) list \<Rightarrow> bool" where
  "well_formed_parameters d =
     (case map_of d (KStr ''parameters'') of
        None \<Rightarrow> True
      | Some (PList ps) \<Rightarrow> list_all is_dict ps
      | Some v \<Rightarrow> False)"

definition reducible_docs :: "pyval \<Rightarrow> bool" where
  "reducible_docs docs =
     (case docs of
        PDict d \<Rightarrow>
          well_formed_parameters d
          \<and> (case map_of d (KStr ''responses'') of Some (PDict r) \<Rightarrow> True | _ \<Rightarrow> False)
      | _ \<Rightarrow> False)"

text \<open>
  The wording of the specification: an operation whose responses contain no \<open>"200"\<close>
  (or numeric \<open>200\<close>) entry; and a catalog entry that comes from an operation, with the
  name and the description of the operation, and without a response schema when the
  operation has no such entry.
\<close>

definition no_200_response :: "pyval \<Rightarrow> bool" where
  "no_200_response docs =
     (case docs of
        PDict d \<Rightarrow>
          (case map_of d (KStr ''responses'') of
             Some (PDict r) \<Rightarrow> KStr ''200'' \<notin> set (map fst r) \<and> KInt 200 \<notin> set (map fst r)
           | _ \<Rightarrow> False)
      | _ \<Rightarrow> False)"

definition reduced_from ::
  "string \<times> pyval \<times> pyval \<Rightarrow> string \<times> pyval \<times> pyval \<Rightarrow> bool" where
  "reduced_from operation entry =
     (case (operation, entry) of
        ((name, description_value, docs), (name', description_value', reduced)) \<Rightarrow>
          name' = name \<and> description_value' = description_value
          \<and> (if no_200_response docs then py_in (KStr ''responses'') reduced = Inr False
              else True))"

section \<open>The world outside the program\<close>

text \<open>
  The completion service, the target REST service, the interpreter that runs a generated
  program, the tokenizer, the serialisers and the clock are not part of the program. They
  are the fields of a \<open>world\<close>, and every property below holds for every world unless it
  names one. A request to the completion service is the template and the values that fill
  it; a world answers a request with a text. \<open>w_time k\<close> is what the \<open>k\<close>-th call
  of \<open>time.time()\<close> in a run returns.

  Modelled from the spec: the Task Planner (model/planner.py is not among the sources).
  Given the user instruction and the history of (plan, execution result) pairs it returns
  the next plan as free text; \<open>w_planner\<close> is that function.
\<close>

datatype llm_request =
    CodeParsingSchemaRequest string pyval string string pyval pyval pyval
  | CodeParsingResponseRequest string pyval string pyval string pyval
  | LLMParsingRequest string pyval pyval string pyval pyval
  | LLMSummarizeRequest string pyval pyval string pyval pyval
  | PostprocessRequest string
  | CallerRequest pyval string string string string
  | SelectorRequest string string string string string

text \<open>
  What the interpreter does with a generated program: it raises an exception of the class
  \<open>Exception\<close>, with a message; it runs to its end, and has printed a text; or it ends
  by an exception outside that class, as a program that calls \<open>sys.exit\<close> does.
\<close>

datatype exec_result = Raised string | Printed string | Exited string

text \<open>
  \<open>w_http method url params body\<close> is the answer of the REST service to a request, its
  status code and its text, or the exception of the HTTP library when no answer comes.
\<close>

record world =
  w_llm :: "llm_request \<Rightarrow> string"
  w_exec_python :: "string \<Rightarrow> pyval \<Rightarrow> exec_result"
  w_http :: "string \<Rightarrow> pyval \<Rightarrow> pyval \<Rightarrow> pyval \<Rightarrow> error + (int \<times> string)"
  w_loads :: json_loads
  w_json_dumps :: "pyval \<Rightarrow> string"
  w_yaml_dump :: "pyval \<Rightarrow> string"
  w_encode :: "string \<Rightarrow> nat list"
  w_decode :: "nat list \<Rightarrow> string"
  w_time :: "nat \<Rightarrow> real"
  w_planner :: "string \<Rightarrow> (string \<times> string) list \<Rightarrow> string"

text \<open>
  The world that differs from \<open>w\<close> in one thing only: the service answers every request
  with the given status code, the text of each answer being the same.
\<close>

definition with_status :: "int \<Rightarrow> world \<Rightarrow> world" where
  "with_status status_code w =
     w\<lparr>w_http := (\<lambda>method url params body.
                    case w_http w method url params body of
                      Inl e \<Rightarrow> Inl e
                    | Inr (answered, text) \<Rightarrow> Inr (status_code, text))\<rparr>"

section \<open>The response parser (model/parser.py)\<close>

text \<open>
  \<open>PythonREPL.run\<close>: the printed text of the program, or \<open>None\<close> when it raises an
  exception that \<open>except Exception\<close> catches; any other exception leaves \<open>run\<close>.
\<close>

definition repl_run :: "world \<Rightarrow> string \<Rightarrow> pyval \<Rightarrow> error + string option" where
  "repl_run w command data =
     (case w_exec_python w command data of
        Raised msg \<Rightarrow> Inr None
      | Printed output \<Rightarrow> Inr (Some output)
      | Exited msg \<Rightarrow> Inl (SystemExit msg))"

text \<open>\<open>output is None or len(output) == 0\<close>.\<close>

definition no_output :: "string option \<Rightarrow> bool" where
  "no_output output = (case output of None \<Rightarrow> True | Some text \<Rightarrow> length text = 0)"

text \<open>
  The parser keeps what its prompts are filled with. \<open>rp_schema\<close> is \<open>None\<close> when the
  constructor took its first branch: the prompts that ask for a program are then \<open>None\<close>
  and the one prompt left is the summarising one. The constructor's \<open>with_example\<close>
  keeps its default \<open>False\<close>, no caller passes it.
\<close>

record response_parser =
  rp_api_path :: string
  rp_api_description :: pyval
  rp_schema :: "string option"
  rp_example :: string

definition max_schema_length :: nat where
  "max_schema_length = 2500"

definition json_schema_properties :: "pyval \<Rightarrow> string \<Rightarrow> error + pyval" where
  "json_schema_properties content media =
     bind (subscript content (KStr media)) (\<lambda>m.
     bind (subscript m (KStr ''schema'')) (\<lambda>sch.
     subscript sch (KStr ''properties'')))"

definition has_response_content :: "pyval \<Rightarrow> error + bool" where
  "has_response_content api_doc =
     bind (py_in (KStr ''responses'') api_doc) (\<lambda>has_responses.
     if has_responses
     then bind (subscript api_doc (KStr ''responses'')) (\<lambda>r. py_in (KStr ''content'') r)
     else Inr False)"

definition ResponseParser_init :: "world \<Rightarrow> string \<Rightarrow> pyval \<Rightarrow> error + response_parser" where
  "ResponseParser_init w api_path api_doc =
     bind (has_response_content api_doc) (\<lambda>has_content.
     if \<not> has_content then
       bind (subscript api_doc (KStr ''description'')) (\<lambda>d.
       Inr \<lparr>rp_api_path = api_path, rp_api_description = d, rp_schema = None,
            rp_example = []\<rparr>)
     else
       bind (subscript api_doc (KStr ''responses'')) (\<lambda>r.
       bind (subscript r (KStr ''content'')) (\<lambda>content.
       bind (py_in (KStr ''application/json'') content) (\<lambda>plain.
       bind (if plain
             then map_sum id Some (json_schema_properties content ''application/json'')
             else
               bind (py_in (KStr ''application/json; charset=utf-8'') content) (\<lambda>charset.
               if charset
               then map_sum id Some
                      (json_schema_properties content ''application/json; charset=utf-8'')
               else Inr None)) (\<lambda>properties.
       case properties of
         None \<Rightarrow> Inl UnboundLocalError
       | Some props \<Rightarrow>
           (let response_schema = w_json_dumps w props;
                encoded_schema = w_encode w response_schema;
                response_schema' =
                  (if length encoded_schema > max_schema_length
                   then w_decode w (take max_schema_length encoded_schema) @ ''...''
                   else response_schema)
            in bind (subscript api_doc (KStr ''description'')) (\<lambda>d.
               Inr \<lparr>rp_api_path = api_path, rp_api_description = d,
                    rp_schema = Some response_schema',
                    rp_example = ''No example provided''\<rparr>)))))))"

text \<open>The inputs of a run of the parser.\<close>

record parser_inputs =
  pi_query :: pyval
  pi_json :: string
  pi_api_param :: pyval
  pi_response_description :: pyval

text \<open>
  What a run of the parser does outside the program, in order: a request to the
  completion service, or a generated program run by the interpreter.
\<close>

datatype parser_step = AskLLM llm_request | RunCode string

definition max_json_length_1 :: nat where
  "max_json_length_1 = 500"

definition max_json_length_2 :: nat where
  "max_json_length_2 = 2000"

definition max_output_length :: nat where
  "max_output_length = 500"

text \<open>The requests of the four prompts of \<open>ResponseParser._call\<close>.\<close>

definition direct_request :: "response_parser \<Rightarrow> parser_inputs \<Rightarrow> string \<Rightarrow> llm_request" where
  "direct_request p inp json_text =
     (case rp_schema p of
        None \<Rightarrow> LLMSummarizeRequest (rp_api_path p) (rp_api_description p) (pi_query inp)
                 json_text (pi_api_param inp) (pi_response_description inp)
      | Some schema \<Rightarrow> LLMParsingRequest (rp_api_path p) (rp_api_description p) (pi_query inp)
                 json_text (pi_api_param inp) (pi_response_description inp))"

definition schema_code_request :: "response_parser \<Rightarrow> parser_inputs \<Rightarrow> string \<Rightarrow> llm_request" where
  "schema_code_request p inp schema =
     CodeParsingSchemaRequest (rp_api_path p) (rp_api_description p) schema (rp_example p)
       (pi_query inp) (pi_response_description inp) (pi_api_param inp)"

definition simplified_json_1 :: "world \<Rightarrow> parser_inputs \<Rightarrow> string" where
  "simplified_json_1 w inp =
     (let encoded_json = w_encode w (pi_json inp) in
      if length encoded_json > max_json_length_1
      then w_decode w (take max_json_length_1 encoded_json) @ ''...''
      else pi_json inp)"

definition simplified_json_2 :: "world \<Rightarrow> parser_inputs \<Rightarrow> string" where
  "simplified_json_2 w inp =
     (let encoded_json = w_encode w (pi_json inp) in
      if length encoded_json > max_json_length_2
      then w_decode w (take max_json_length_2 encoded_json) @ ''...''
      else simplified_json_1 w inp)"

definition response_code_request ::
  "world \<Rightarrow> response_parser \<Rightarrow> parser_inputs \<Rightarrow> string \<Rightarrow> llm_request" where
  "response_code_request w p inp schema =
     CodeParsingResponseRequest (rp_api_path p) (rp_api_description p) schema
       (pi_query inp) (simplified_json_1 w inp) (pi_api_param inp)"

text \<open>The last block: an output of more than 500 tokens is cut and handed to the repair prompt.\<close>

definition postprocess :: "world \<Rightarrow> string \<Rightarrow> parser_step list \<times> string" where
  "postprocess w output =
     (let encoded_output = w_encode w output in
      if length encoded_output > max_output_length
      then (let cut = w_decode w (take max_output_length encoded_output)
            in ([AskLLM (PostprocessRequest cut)], w_llm w (PostprocessRequest cut)))
      else ([], output))"

text \<open>
  \<open>ResponseParser._call\<close>: the steps taken and the result. The second block runs when the
  first program gave no output, the third when there is still none; the third block reads
  the variables \<open>encoded_json\<close> and \<open>simplified_json_data\<close> that the second one bound.
\<close>

definition finish :: "world \<Rightarrow> parser_step list \<Rightarrow> string \<Rightarrow> parser_step list \<times> (error + string)" where
  "finish w steps output = (steps @ fst (postprocess w output), Inr (snd (postprocess w output)))"

definition ResponseParser_call ::
  "world \<Rightarrow> response_parser \<Rightarrow> parser_inputs \<Rightarrow> parser_step list \<times> (error + string)" where
  "ResponseParser_call w p inp =
     (case rp_schema p of
        None \<Rightarrow>
          ([AskLLM (direct_request p inp (pi_json inp))],
           Inr (w_llm w (direct_request p inp (pi_json inp))))
      | Some schema \<Rightarrow>
          if pi_query inp = PNone then
            ([AskLLM (direct_request p inp (pi_json inp))],
             Inr (w_llm w (direct_request p inp (pi_json inp))))
          else
            (let code = w_llm w (schema_code_request p inp schema);
                 steps1 = [AskLLM (schema_code_request p inp schema), RunCode code]
             in
             case w_loads w (pi_json inp) of
               Inl e \<Rightarrow> ([AskLLM (schema_code_request p inp schema)], Inl e)
             | Inr json_data \<Rightarrow>
                 (case repl_run w code json_data of
                    Inl e \<Rightarrow> (steps1, Inl e)
                  | Inr output1 \<Rightarrow>
                      if no_output output1 then
                        (let code2 = w_llm w (response_code_request w p inp schema);
                             steps2 = steps1 @ [AskLLM (response_code_request w p inp schema),
                                                RunCode code2]
                         in
                         case repl_run w code2 json_data of
                           Inl e \<Rightarrow> (steps2, Inl e)
                         | Inr output2 \<Rightarrow>
                             if no_output output2 then
                               (let last_request =
                                      direct_request p inp (simplified_json_2 w inp)
                                in finish w (steps2 @ [AskLLM last_request])
                                     (w_llm w last_request))
                             else finish w steps2 (the output2))
                      else finish w steps1 (the output1))))"

text \<open>The tiers of the fallback chain that a run has attempted, read off its steps.\<close>

datatype tier = SchemaProgram | ResponseProgram | DirectLLM

fun tier_of :: "parser_step \<Rightarrow> tier list" where
  "tier_of (AskLLM (CodeParsingSchemaRequest a b c d e f g)) = [SchemaProgram]"
| "tier_of (AskLLM (CodeParsingResponseRequest a b c d e f)) = [ResponseProgram]"
| "tier_of (AskLLM (LLMParsingRequest a b c d e f)) = [DirectLLM]"
| "tier_of (AskLLM (LLMSummarizeRequest a b c d e f)) = [DirectLLM]"
| "tier_of step = []"

definition tiers :: "parser_step list \<Rightarrow> tier list" where
  "tiers steps = concat (map tier_of steps)"

text \<open>
  \<open>SimpleResponseParser\<close>: its constructor reads only the description and picks the
  summarising prompt on the same test (\<open>rp_schema\<close> only records which prompt it is); a
  run asks the completion service once. The variable \<open>encoded_json\<close> is what the prompt
  receives: the cut text when the response is long, and otherwise the list of tokens
  itself, printed as Python prints a list of integers.
\<close>

definition str_of_tokens :: "nat list \<Rightarrow> string" where
  "str_of_tokens tokens = ''['' @ py_join '', '' (map str_of_nat tokens) @ '']''"

definition max_json_length :: nat where
  "max_json_length = 1000"

definition SimpleResponseParser_init :: "world \<Rightarrow> string \<Rightarrow> pyval \<Rightarrow> error + response_parser" where
  "SimpleResponseParser_init w api_path api_doc =
     bind (has_response_content api_doc) (\<lambda>has_content.
     bind (subscript api_doc (KStr ''description'')) (\<lambda>d.
     Inr \<lparr>rp_api_path = api_path, rp_api_description = d,
          rp_schema = (if has_content then Some [] else None), rp_example = []\<rparr>))"

definition SimpleResponseParser_call ::
  "world \<Rightarrow> response_parser \<Rightarrow> parser_inputs \<Rightarrow> parser_step list \<times> (error + string)" where
  "SimpleResponseParser_call w p inp =
     (if pi_query inp = PNone then
        ([AskLLM (direct_request p inp (pi_json inp))],
         Inr (w_llm w (direct_request p inp (pi_json inp))))
      else
        (let encoded_json = w_encode w (pi_json inp);
             json_text = (if length encoded_json > max_json_length
                          then w_decode w (take max_json_length encoded_json) @ ''...''
                          else str_of_tokens encoded_json)
         in ([AskLLM (direct_request p inp json_text)],
             Inr (w_llm w (direct_request p inp json_text)))))"

section \<open>The Caller (model/caller.py)\<close>

record caller =
  c_scenario :: string
  c_max_iterations :: "nat option"
  c_max_execution_time :: "real option"
  c_simple_parser :: bool
  c_with_response :: bool

text \<open>\<open>_should_continue\<close>, the same in the Caller and in the orchestrator.\<close>

definition should_continue :: "nat option \<Rightarrow> real option \<Rightarrow> nat \<Rightarrow> real \<Rightarrow> bool" where
  "should_continue max_it max_time iterations time_elapsed =
     (if (case max_it of None \<Rightarrow> False | Some m \<Rightarrow> m \<le> iterations) then False
      else if (case max_time of None \<Rightarrow> False | Some t \<Rightarrow> t \<le> time_elapsed) then False
      else True)"

definition construct_scratchpad :: "(string \<times> string) list \<Rightarrow> string" where
  "construct_scratchpad history =
     concat (map (\<lambda>(plan, execution_res).
                    ''Thought: '' @ plan @ [newline] @ ''Response: '' @ execution_res @ [newline])
                 history)"

text \<open>\<open>s.find(c)\<close>, \<open>s.rfind(c)\<close> and the slice \<open>s[a:b]\<close>, indices below zero counting from the end.\<close>

definition py_find :: "char \<Rightarrow> string \<Rightarrow> int" where
  "py_find c s = (if c \<in> set s then int (length (takeWhile (\<lambda>x. x \<noteq> c) s)) else - 1)"

definition py_rfind :: "char \<Rightarrow> string \<Rightarrow> int" where
  "py_rfind c s =
     (if c \<in> set s then int (length s) - 1 - int (length (takeWhile (\<lambda>x. x \<noteq> c) (rev s)))
      else - 1)"

definition py_slice :: "string \<Rightarrow> int \<Rightarrow> int \<Rightarrow> string" where
  "py_slice s a b =
     (let n = int (length s);
          a' = (if a < 0 then max 0 (n + a) else min a n);
          b' = (if b < 0 then max 0 (n + b) else min b n)
      in take (nat (b' - a')) (drop (nat a') s))"

text \<open>
  The field \<open>requests_wrapper: RequestsWrapper\<close> of the Caller and of the orchestrator is
  declared with the text wrapper of the langchain library, and the object a runner passes
  for it is converted to that class when the chain is constructed. Modelled from the
  library: a method of the text wrapper sends the request and returns the text of the
  answer as a string, whatever the status code; an exception of the HTTP library passes
  through.
\<close>

datatype http_response = Response int string | TextResponse string | OtherResponse

definition requests_wrapper ::
  "world \<Rightarrow> string \<Rightarrow> pyval \<Rightarrow> pyval \<Rightarrow> pyval \<Rightarrow> error + http_response" where
  "requests_wrapper w method url params body =
     (case w_http w method url params body of
        Inl e \<Rightarrow> Inl e
      | Inr (status_code, text) \<Rightarrow> Inr (TextResponse text))"

text \<open>
  \<open>_get_response\<close>, its requests: the three values are the response, the query
  parameters and the request body.
\<close>

definition dispatch :: "world \<Rightarrow> string \<Rightarrow> pyval \<Rightarrow> error + (http_response \<times> pyval \<times> pyval)" where
  "dispatch w action data =
     (if action = ''GET'' then
        bind (py_in (KStr ''params'') data) (\<lambda>has_params.
        if has_params then
          bind (py_get data (KStr ''params'') PNone) (\<lambda>params.
          bind (py_get data (KStr ''url'') PNone) (\<lambda>url.
          bind (requests_wrapper w ''GET'' url params PNone) (\<lambda>response.
          Inr (response, params, PNone))))
        else
          bind (py_get data (KStr ''url'') PNone) (\<lambda>url.
          bind (requests_wrapper w ''GET'' url PNone PNone) (\<lambda>response.
          Inr (response, PNone, PNone))))
      else if action = ''POST'' \<or> action = ''PUT'' \<or> action = ''DELETE'' then
        bind (py_get data (KStr ''params'') PNone) (\<lambda>params.
        bind (py_get data (KStr ''data'') PNone) (\<lambda>request_body.
        bind (subscript data (KStr ''url'')) (\<lambda>url.
        bind (requests_wrapper w action url params request_body) (\<lambda>response.
        Inr (response, params, request_body)))))
      else Inl NotImplementedError)"

text \<open>
  What \<open>_get_response\<close> returns: the tuple of five values, or the text of the response
  alone. The last statements of \<open>_get_response\<close> tell a response object of the HTTP
  library, with its status code, from a string.
\<close>

datatype get_response_result =
    ReturnedText string
  | ReturnedTuple string pyval pyval pyval pyval

definition response_result ::
  "http_response \<Rightarrow> pyval \<Rightarrow> pyval \<Rightarrow> pyval \<Rightarrow> pyval \<Rightarrow> error + get_response_result" where
  "response_result response params request_body desc query =
     (case response of
        Response status_code response_text \<Rightarrow>
          if status_code \<noteq> 200 then Inr (ReturnedText response_text)
          else Inr (ReturnedTuple response_text params request_body desc query)
      | TextResponse response_text \<Rightarrow>
          Inr (ReturnedTuple response_text params request_body desc query)
      | OtherResponse \<Rightarrow> Inl NotImplementedError)"

definition get_response :: "world \<Rightarrow> string \<Rightarrow> repaired \<Rightarrow> error + get_response_result" where
  "get_response w action action_input =
     (case action_input of
        RJson v \<Rightarrow> Inl AttributeError
      | RStr text \<Rightarrow>
          (let stripped = strip_chars ''`'' (py_strip text);
               left_bracket = py_find (CHR ''{'') stripped;
               right_bracket = py_rfind (CHR ''}'') stripped;
               cut = py_slice stripped left_bracket (right_bracket + 1)
           in bind (w_loads w cut) (\<lambda>data.
              bind (py_get data (KStr ''description'') (PStr ''No description'')) (\<lambda>desc.
              bind (py_get data (KStr ''output_instructions'') PNone) (\<lambda>query.
              bind (dispatch w action data) (\<lambda>(response, params, request_body).
              response_result response params request_body desc query))))))"

text \<open>
  \<open>response, params, request_body, desc, query = self._get_response(...)\<close>: a tuple of
  five is taken apart; a string is taken apart into its characters, and raises unless it
  has exactly five.
\<close>

definition unpack_response ::
  "get_response_result \<Rightarrow> error + (string \<times> pyval \<times> pyval \<times> pyval \<times> pyval)" where
  "unpack_response ret =
     (case ret of
        ReturnedTuple response params request_body desc query \<Rightarrow>
          Inr (response, params, request_body, desc, query)
      | ReturnedText text \<Rightarrow>
          (case text of
             [a, b, c, d, e] \<Rightarrow> Inr ([a], PStr [b], PStr [c], PStr [d], PStr [e])
           | _ \<Rightarrow>
               Inl (ValueError (if 5 < length text
                                then ''too many values to unpack (expected 5)''
                                else ''not enough values to unpack (expected 5)''))))"

text \<open>
  \<open>endpoint_docs_by_name\<close>: a dict built from the catalog, a later entry of the same name
  replacing an earlier one; \<open>.get(name)\<close> is \<open>None\<close> for a name not there. The dict holds
  the very document objects of the catalog, so the Caller's change of a document below is a
  change of the catalog: the catalog is part of the Caller's state.
\<close>

definition endpoint_docs_by_name :: "reduced_spec \<Rightarrow> string \<Rightarrow> pyval" where
  "endpoint_docs_by_name api_spec name =
     (case map_of (rev (map (\<lambda>(n, d, docs). (n, docs)) (endpoints api_spec))) name of
        None \<Rightarrow> PNone
      | Some docs \<Rightarrow> docs)"

fun set_last_docs ::
  "string \<Rightarrow> pyval \<Rightarrow> (string \<times> pyval \<times> pyval) list \<Rightarrow> (string \<times> pyval \<times> pyval) list" where
  "set_last_docs name docs' [] = []"
| "set_last_docs name docs' ((n, d, docs) # rest) =
     (if n = name \<and> name \<notin> set (map fst rest) then (n, d, docs') # rest
      else (n, d, docs) # set_last_docs name docs' rest)"

text \<open>\<open>obj[k1][k2]...[kn] = value\<close> on nested dicts.\<close>

fun set_path :: "pyval \<Rightarrow> pykey list \<Rightarrow> pyval \<Rightarrow> error + pyval" where
  "set_path obj [] v = Inr v"
| "set_path obj (k # ks) v =
     (case subscript obj k of
        Inl e \<Rightarrow> (if ks = [] then (case obj of PDict d \<Rightarrow> Inr (PDict (dict_set k v d))
                                      | _ \<Rightarrow> Inl TypeError)
                  else Inl e)
      | Inr sub \<Rightarrow>
          (case set_path sub ks v of
             Inl e \<Rightarrow> Inl e
           | Inr sub' \<Rightarrow>
               (case obj of
                  PDict d \<Rightarrow> Inr (PDict (dict_set k sub' d))
                | _ \<Rightarrow> Inl TypeError)))"

fun get_path :: "pyval \<Rightarrow> pykey list \<Rightarrow> error + pyval" where
  "get_path obj [] = Inr obj"
| "get_path obj (k # ks) =
     (case subscript obj k of
        Inl e \<Rightarrow> Inl e
      | Inr sub \<Rightarrow> get_path sub ks)"

text \<open>\<open>s.replace(old, '')\<close>.\<close>

definition py_remove :: "string \<Rightarrow> string \<Rightarrow> string" where
  "py_remove old s = (if old = [] then s else concat (py_split old s))"

text \<open>
  The setup of \<open>Caller._call\<close>, up to the prompt: the base URL, the one endpoint the plan
  names, and its documentation cut to 1500 tokens.
\<close>

record caller_context =
  cc_api_plan :: string
  cc_background :: string
  cc_api_url :: pyval
  cc_endpoint_name :: string
  cc_api_doc_for_caller :: string

definition collapse_responses :: "pyval \<Rightarrow> error + pyval" where
  "collapse_responses tmp_docs =
     bind (has_response_content tmp_docs) (\<lambda>has_content.
     if has_content then
       bind (get_path tmp_docs [KStr ''responses'', KStr ''content'']) (\<lambda>content.
       bind (py_in (KStr ''application/json'') content) (\<lambda>plain.
       if plain then
         bind (json_schema_properties content ''application/json'') (\<lambda>props.
         set_path tmp_docs [KStr ''responses''] props)
       else
         bind (py_in (KStr ''application/json; charset=utf-8'') content) (\<lambda>charset.
         if charset then
           bind (json_schema_properties content ''application/json; charset=utf-8'') (\<lambda>props.
           set_path tmp_docs [KStr ''responses''] props)
         else Inr tmp_docs)))
     else Inr tmp_docs)"

definition pop_responses :: "bool \<Rightarrow> pyval \<Rightarrow> error + pyval" where
  "pop_responses with_response tmp_docs =
     (if with_response then Inr tmp_docs
      else
        bind (py_in (KStr ''responses'') tmp_docs) (\<lambda>has_responses.
        if has_responses then
          (case tmp_docs of
             PDict d \<Rightarrow> Inr (PDict (filter (\<lambda>(k, v). k \<noteq> KStr ''responses'') d))
           | PList xs \<Rightarrow> Inl TypeError
           | _ \<Rightarrow> Inl AttributeError)
        else Inr tmp_docs))"

definition caller_setup ::
  "world \<Rightarrow> caller \<Rightarrow> reduced_spec \<Rightarrow> string \<Rightarrow> string \<Rightarrow> error + caller_context" where
  "caller_setup w c api_spec api_plan background =
     bind (get_path (servers api_spec) [KInt 0, KStr ''url'']) (\<lambda>api_url.
     bind (get_matched_endpoint api_spec api_plan) (\<lambda>matched_endpoints.
     case matched_endpoints of
       None \<Rightarrow> Inl TypeError
     | Some names \<Rightarrow>
         if length names \<noteq> 1
         then Inl (AssertionError
                (''Found '' @ str_of_nat (length names) @ '' matched endpoints, but expected 1.''))
         else
           (let endpoint_name = hd names in
            bind (collapse_responses (endpoint_docs_by_name api_spec endpoint_name)) (\<lambda>docs1.
            bind (pop_responses (c_with_response c) docs1) (\<lambda>docs2.
            (let dumped = w_yaml_dump w docs2;
                 encoded_docs = w_encode w dumped;
                 tmp_docs = (if 1500 < length encoded_docs
                             then w_decode w (take 1500 encoded_docs) else dumped)
             in Inr \<lparr>cc_api_plan = api_plan, cc_background = background,
                     cc_api_url = api_url, cc_endpoint_name = endpoint_name,
                     cc_api_doc_for_caller =
                       ''== Docs for '' @ endpoint_name @ '' == '' @ [newline] @ tmp_docs
                       @ [newline]\<rparr>))))))"

text \<open>
  The state of the loop. \<open>cs_turns\<close> holds the text of every turn of the completion
  service so far, the last one being the variable \<open>caller_chain_output\<close>; \<open>cs_clock\<close>
  counts the calls of \<open>time.time()\<close>; \<open>cs_search_type\<close> is the variable \<open>search_type\<close>,
  which keeps its value from one turn to the next once it is bound.
\<close>

record caller_state =
  cs_spec :: reduced_spec
  cs_steps :: "(string \<times> string) list"
  cs_iterations :: nat
  cs_time_elapsed :: real
  cs_start_time :: real
  cs_clock :: nat
  cs_turns :: "string list"
  cs_search_type :: "string option"

text \<open>The narrowing of the search schema of the music service to the searched type.\<close>

fun type_in_url :: "string list \<Rightarrow> string option" where
  "type_in_url [] = None"
| "type_in_url (param # rest) =
     (if contains param ''type='' then Some (last (py_split ''='' param) @ ''s'')
      else type_in_url rest)"

definition string_of :: "pyval \<Rightarrow> error \<Rightarrow> error + string" where
  "string_of v e = (case v of PStr t \<Rightarrow> Inr t | _ \<Rightarrow> Inl e)"

definition find_search_type ::
  "world \<Rightarrow> pyval \<Rightarrow> string \<Rightarrow> string option \<Rightarrow> error + string option" where
  "find_search_type w params action_text previous =
     bind (if params \<noteq> PNone then py_in (KStr ''type'') params else Inr False) (\<lambda>in_params.
     if in_params then
       bind (subscript params (KStr ''type'')) (\<lambda>t.
       bind (string_of t TypeError) (\<lambda>ty. Inr (Some (ty @ ''s''))))
     else
       bind (w_loads w action_text) (\<lambda>data.
       bind (subscript data (KStr ''url'')) (\<lambda>url.
       bind (string_of url AttributeError) (\<lambda>u.
       Inr (case type_in_url (py_split ''&'' u) of
              None \<Rightarrow> previous
            | Some ty \<Rightarrow> Some ty)))))"

definition search_properties_path :: "pykey list" where
  "search_properties_path =
     [KStr ''responses'', KStr ''content'', KStr ''application/json'', KStr ''schema'',
      KStr ''properties'']"

definition narrow_search_schema :: "pyval \<Rightarrow> string option \<Rightarrow> error + pyval" where
  "narrow_search_schema api_doc search_type =
     (case search_type of
        None \<Rightarrow> Inl UnboundLocalError
      | Some ty \<Rightarrow>
          bind (get_path api_doc search_properties_path) (\<lambda>properties.
          bind (subscript properties (KStr ty)) (\<lambda>kept.
          set_path api_doc search_properties_path (PDict [(KStr ty, kept)]))))"

text \<open>
  What the Caller hands to the response parser: the parser it builds for the endpoint
  called, and the inputs of its run, the text of the response among them.
\<close>

definition parser_inputs_of ::
  "string \<Rightarrow> pyval \<Rightarrow> pyval \<Rightarrow> pyval \<Rightarrow> pyval \<Rightarrow> parser_inputs" where
  "parser_inputs_of response params request_body desc query =
     \<lparr>pi_query = query, pi_json = response,
      pi_api_param =
        PDict [(KStr ''params'', if params \<noteq> PNone then params else PStr ''No parameters''),
               (KStr ''data'',
                if request_body \<noteq> PNone then request_body else PStr ''No request body'')],
      pi_response_description = desc\<rparr>"

definition run_parser ::
  "world \<Rightarrow> caller \<Rightarrow> string \<Rightarrow> pyval \<Rightarrow> parser_inputs \<Rightarrow> error + string" where
  "run_parser w c api_path api_doc_for_parser inp =
     (if \<not> c_simple_parser c
      then bind (ResponseParser_init w api_path api_doc_for_parser) (\<lambda>p.
           snd (ResponseParser_call w p inp))
      else bind (SimpleResponseParser_init w api_path api_doc_for_parser) (\<lambda>p.
           snd (SimpleResponseParser_call w p inp)))"

text \<open>
  One turn after its text is parsed to an operation and an input: the request, the
  endpoint it called, the parser, and the new state.
\<close>

definition caller_turn ::
  "world \<Rightarrow> caller \<Rightarrow> caller_context \<Rightarrow> caller_state \<Rightarrow> string \<Rightarrow> string \<Rightarrow> repaired
     \<Rightarrow> error + caller_state" where
  "caller_turn w c ctx st caller_chain_output action action_input =
     bind (get_response w action action_input) (\<lambda>ret.
     bind (unpack_response ret) (\<lambda>(response, params, request_body, desc, query).
     bind (case action_input of RStr t \<Rightarrow> Inr t | RJson v \<Rightarrow> Inl TypeError) (\<lambda>action_text.
     bind (w_loads w action_text) (\<lambda>data.
     bind (subscript data (KStr ''url'')) (\<lambda>url_value.
     bind (string_of url_value AttributeError) (\<lambda>url.
     bind (string_of (cc_api_url ctx) TypeError) (\<lambda>api_url.
     bind (get_matched_endpoint (cs_spec st) (action @ '' '' @ py_remove api_url url))
       (\<lambda>matched.
     bind (case matched of None \<Rightarrow> Inl TypeError | Some names \<Rightarrow> Inr (hd names))
       (\<lambda>called_endpoint_name.
     (let api_path = api_url @ last (py_split '' '' called_endpoint_name);
          api_doc0 = endpoint_docs_by_name (cs_spec st) called_endpoint_name;
          special = (c_scenario c = ''spotify'' \<and> cc_endpoint_name ctx = ''GET /search'')
      in
     bind (if special
           then find_search_type w params action_text (cs_search_type st)
           else Inr (cs_search_type st)) (\<lambda>search_type.
     bind (if special then narrow_search_schema api_doc0 search_type else Inr api_doc0)
       (\<lambda>api_doc_for_parser.
     (let spec' = (if special
                   then (cs_spec st)\<lparr>endpoints :=
                          set_last_docs called_endpoint_name api_doc_for_parser
                            (endpoints (cs_spec st))\<rparr>
                   else cs_spec st)
      in
     bind (run_parser w c api_path api_doc_for_parser
             (parser_inputs_of response params request_body desc query)) (\<lambda>parsing_res.
     Inr (st\<lparr>cs_spec := spec',
              cs_steps := cs_steps st @ [(caller_chain_output, parsing_res)],
              cs_iterations := cs_iterations st + 1,
              cs_time_elapsed := w_time w (cs_clock st) - cs_start_time st,
              cs_clock := cs_clock st + 1,
              cs_search_type := search_type\<rparr>)))))))))))))))"

text \<open>
  The body of the loop of \<open>Caller._call\<close>. The completion service writes a turn, which is
  kept in the state; the turn is parsed; a terminal turn returns its result, and any other
  turn is carried out. A pass through the body ends the run, by an exception or by
  \<open>return\<close>, or leaves the state for the next pass.
\<close>

datatype turn_result = TurnRaised error | TurnReturned string | TurnDone caller_state

definition caller_request :: "caller_context \<Rightarrow> caller_state \<Rightarrow> llm_request" where
  "caller_request ctx st =
     CallerRequest (cc_api_url ctx) (cc_api_doc_for_caller ctx) (cc_api_plan ctx)
       (cc_background ctx) (construct_scratchpad (cs_steps st))"

definition with_turn :: "world \<Rightarrow> caller_context \<Rightarrow> caller_state \<Rightarrow> caller_state" where
  "with_turn w ctx st = st\<lparr>cs_turns := cs_turns st @ [w_llm w (caller_request ctx st)]\<rparr>"

definition caller_body ::
  "world \<Rightarrow> caller \<Rightarrow> caller_context \<Rightarrow> caller_state \<Rightarrow> turn_result" where
  "caller_body w c ctx st =
     (let caller_chain_output = w_llm w (caller_request ctx st) in
      case get_action_and_input (w_loads w) caller_chain_output of
        Inl e \<Rightarrow> TurnRaised e
      | Inr (action, action_input) \<Rightarrow>
          if action = ''Execution Result''
          then (case action_input of RStr t \<Rightarrow> TurnReturned t | RJson v \<Rightarrow> TurnRaised TypeError)
          else
            (case caller_turn w c ctx (with_turn w ctx st) caller_chain_output
                    action action_input of
               Inl e \<Rightarrow> TurnRaised e
             | Inr st' \<Rightarrow> TurnDone st'))"

text \<open>
  The loop of \<open>Caller._call\<close>. It need not end when no bound is set, so its result is an
  option, \<open>None\<close> for a run that never returns. The result of a run that returns is the
  exception or the text returned, and the state it ended in. After the loop the variable
  \<open>caller_chain_output\<close> is returned, which is unbound when the body never ran.
\<close>

partial_function (option) caller_loop ::
  "world \<Rightarrow> caller \<Rightarrow> caller_context \<Rightarrow> caller_state
     \<Rightarrow> ((error + string) \<times> caller_state) option" where
  "caller_loop w c ctx st =
     (if should_continue (c_max_iterations c) (c_max_execution_time c)
           (cs_iterations st) (cs_time_elapsed st)
      then
        (case caller_body w c ctx st of
           TurnRaised e \<Rightarrow> Some (Inl e, with_turn w ctx st)
         | TurnReturned result \<Rightarrow> Some (Inr result, with_turn w ctx st)
         | TurnDone st' \<Rightarrow> caller_loop w c ctx st')
      else
        (case cs_turns st of
           [] \<Rightarrow> Some (Inl UnboundLocalError, st)
         | t # ts \<Rightarrow> Some (Inr (last (cs_turns st)), st)))"

declare caller_loop.simps [code]

text \<open>
  The state after the first \<open>k\<close> passes through the body, when each of them left a state
  for the next pass: \<open>None\<close> when one of them ended the run.
\<close>

fun after_turns ::
  "nat \<Rightarrow> world \<Rightarrow> caller \<Rightarrow> caller_context \<Rightarrow> caller_state \<Rightarrow> caller_state option" where
  "after_turns 0 w c ctx st0 = Some st0"
| "after_turns (Suc k) w c ctx st0 =
     (case after_turns k w c ctx st0 of
        None \<Rightarrow> None
      | Some st \<Rightarrow>
          (case caller_body w c ctx st of
             TurnDone st' \<Rightarrow> Some st'
           | _ \<Rightarrow> None))"

definition initial_caller_state :: "world \<Rightarrow> reduced_spec \<Rightarrow> nat \<Rightarrow> caller_state" where
  "initial_caller_state w api_spec clock =
     \<lparr>cs_spec = api_spec, cs_steps = [], cs_iterations = 0, cs_time_elapsed = 0,
      cs_start_time = w_time w clock, cs_clock = clock + 1, cs_turns = [],
      cs_search_type = None\<rparr>"

text \<open>\<open>Caller._call\<close>, from its inputs: the catalog, the plan and the background.\<close>

definition Caller_call ::
  "world \<Rightarrow> caller \<Rightarrow> reduced_spec \<Rightarrow> nat \<Rightarrow> string \<Rightarrow> string
     \<Rightarrow> ((error + string) \<times> caller_state) option" where
  "Caller_call w c api_spec clock api_plan background =
     (case caller_setup w c api_spec api_plan background of
        Inl e \<Rightarrow> Some (Inl e, initial_caller_state w api_spec clock)
      | Inr ctx \<Rightarrow> caller_loop w c ctx (initial_caller_state w api_spec clock))"

section \<open>The API selector (model/api\_selector.py)\<close>

text \<open>
  The constructor lists the catalog for the prompt: every name with the first sentence of
  its description, a description that is not \<open>None\<close> having to be a string.
\<close>

fun api_name_desc :: "(string \<times> pyval \<times> pyval) list \<Rightarrow> error + string list" where
  "api_name_desc [] = Inr []"
| "api_name_desc ((name, d, docs) # rest) =
     (case (if d = PNone then Inr [] else
              (case d of PStr t \<Rightarrow> Inr (hd (py_split ''.'' t)) | _ \<Rightarrow> Inl AttributeError)) of
        Inl e \<Rightarrow> Inl e
      | Inr first_sentence \<Rightarrow>
          (case api_name_desc rest of
             Inl e \<Rightarrow> Inl e
           | Inr others \<Rightarrow> Inr ((name @ '' '' @ first_sentence) # others)))"

text \<open>
  The selector, the Caller and the orchestrator are chains of the langchain library, and
  the constructor of a chain validates its fields with the pydantic library: the field
  \<open>api_spec: ReducedOpenAPISpec\<close> must hold a list of dicts as \<open>servers\<close>, a string
  as \<open>description\<close>, and as \<open>endpoints\<close> a list of triples of a string, a string or
  \<open>None\<close>, and a dict. Modelled from the library: a value of another type is refused
  with \<open>ValidationError\<close>, and a catalog that passes is kept as it is. The library
  converts some values instead of refusing them (a number where a string is expected, a
  sequence of pairs where a dict is expected); the model does not cover them, a check
  answers \<open>None\<close> there and the validation \<open>Unmodelled\<close>.
\<close>

fun check_str :: "pyval \<Rightarrow> bool option" where
  "check_str (PStr t) = Some True"
| "check_str PNone = Some False"
| "check_str (PList xs) = Some False"
| "check_str (PDict d) = Some False"
| "check_str v = None"

fun check_dict :: "pyval \<Rightarrow> bool option" where
  "check_dict (PDict d) = Some True"
| "check_dict (PStr t) = None"
| "check_dict (PList xs) = None"
| "check_dict v = Some False"

definition check_servers :: "pyval \<Rightarrow> bool option list" where
  "check_servers v = (case v of PList xs \<Rightarrow> map check_dict xs | _ \<Rightarrow> [Some False])"

definition check_endpoint :: "string \<times> pyval \<times> pyval \<Rightarrow> bool option list" where
  "check_endpoint endpoint =
     (case endpoint of
        (name, d, docs) \<Rightarrow> [if d = PNone then Some True else check_str d, check_dict docs])"

definition validate_api_spec :: "reduced_spec \<Rightarrow> error + reduced_spec" where
  "validate_api_spec api_spec =
     (let checks = check_servers (servers api_spec) @ [check_str (description api_spec)]
                   @ concat (map check_endpoint (endpoints api_spec))
      in if None \<in> set checks then Inl (Unmodelled ''pydantic'')
         else if Some False \<in> set checks then Inl (ValidationError ''api_spec'')
         else Inr api_spec)"

text \<open>
  \<open>APISelector.__init__\<close>: the list of the catalog, the examples of the scenario, and
  then the constructor of the chain with its validation.
\<close>

record api_selector =
  as_scenario :: string
  as_endpoints :: string

definition APISelector_init :: "string \<Rightarrow> reduced_spec \<Rightarrow> error + api_selector" where
  "APISelector_init scenario_name api_spec =
     bind (api_name_desc (endpoints api_spec)) (\<lambda>lines.
     if scenario_name \<notin> set [''tmdb'', ''spotify''] then Inl (KeyError (KStr scenario_name))
     else
       bind (validate_api_spec api_spec) (\<lambda>validated.
       Inr \<lparr>as_scenario = scenario_name, as_endpoints = py_join [newline] lines\<rparr>))"

text \<open>
  \<open>re.sub(r"API calling \d+: ", "", text)\<close>: every occurrence of the words, a run of
  digits, a colon and a space is removed, from the left.
\<close>

definition api_calling_length :: "string \<Rightarrow> nat option" where
  "api_calling_length s =
     (if starts_with s ''API calling '' then
        (let r = drop 12 s; ds = takeWhile is_digit r
         in if ds \<noteq> [] \<and> starts_with (dropWhile is_digit r) '': ''
            then Some (12 + length ds + 2) else None)
      else None)"

fun remove_api_calling :: "nat \<Rightarrow> string \<Rightarrow> string" where
  "remove_api_calling skip [] = []"
| "remove_api_calling skip (c # cs) =
     (if 0 < skip then remove_api_calling (skip - 1) cs
      else (case api_calling_length (c # cs) of
              None \<Rightarrow> c # remove_api_calling 0 cs
            | Some n \<Rightarrow> remove_api_calling (n - 1) cs))"

text \<open>
  \<open>re.match(r"No API call needed.(.*)", api_plan)\<close>: the words, one character that is not
  a line feed, and as the group the rest of that line.
\<close>

definition match_no_api_call :: "string \<Rightarrow> string option" where
  "match_no_api_call api_plan =
     (if starts_with api_plan ''No API call needed'' then
        (case drop 18 api_plan of
           [] \<Rightarrow> None
         | c # r \<Rightarrow> if c = newline then None else Some (takeWhile (\<lambda>x. x \<noteq> newline) r))
      else None)"

text \<open>\<open>_construct_scratchpad\<close> of the selector, \<open>i\<close> being the index of the first triple.\<close>

fun selector_history_lines :: "nat \<Rightarrow> (string \<times> string \<times> string) list \<Rightarrow> string" where
  "selector_history_lines i [] = []"
| "selector_history_lines i ((plan, api_plan, execution_res) # rest) =
     (if i \<noteq> 0 then ''Instruction: '' @ plan @ [newline] else [])
     @ ''API calling '' @ str_of_nat (i + 1) @ '': '' @ api_plan @ [newline]
     @ ''API response: '' @ execution_res @ [newline]
     @ selector_history_lines (i + 1) rest"

definition selector_scratchpad :: "(string \<times> string \<times> string) list \<Rightarrow> string \<Rightarrow> string" where
  "selector_scratchpad history instruction =
     (if length history = 0 then []
      else selector_history_lines 0 history @ ''Instruction: '' @ instruction @ [newline])"

definition selector_request :: "api_selector \<Rightarrow> string \<Rightarrow> string \<Rightarrow> string \<Rightarrow> llm_request" where
  "selector_request sel plan background scratchpad =
     SelectorRequest (as_endpoints sel) (as_scenario sel) plan background scratchpad"

text \<open>
  The loop of \<open>APISelector._call\<close> that asks again while the plan names no endpoint of the
  catalog. Nothing bounds it: the result is an option.
\<close>

partial_function (option) selector_retry ::
  "world \<Rightarrow> api_selector \<Rightarrow> reduced_spec \<Rightarrow> string \<Rightarrow> string \<Rightarrow> string \<Rightarrow> string \<Rightarrow> string
     \<Rightarrow> (error + string) option" where
  "selector_retry w sel api_spec plan background scratchpad chain_output api_plan =
     (case get_matched_endpoint api_spec api_plan of
        Inl e \<Rightarrow> Some (Inl e)
      | Inr (Some names) \<Rightarrow> Some (Inr api_plan)
      | Inr None \<Rightarrow>
          selector_retry w sel api_spec plan background
            (scratchpad @ chain_output @ [newline]
             @ ''The API you called is not in the list of available APIs. Please use another API.''
             @ [newline])
            (w_llm w (selector_request sel plan background
               (scratchpad @ chain_output @ [newline]
                @ ''The API you called is not in the list of available APIs. Please use another API.''
                @ [newline])))
            (py_strip (remove_api_calling 0
               (w_llm w (selector_request sel plan background
                  (scratchpad @ chain_output @ [newline]
                   @ ''The API you called is not in the list of available APIs. Please use another API.''
                   @ [newline]))))))"

declare selector_retry.simps [code]

text \<open>
  \<open>APISelector._call\<close>; \<open>continuation\<close> is the pair of \<open>history\<close> and \<open>instruction\<close>
  when the inputs hold them.
\<close>

definition APISelector_call ::
  "world \<Rightarrow> api_selector \<Rightarrow> reduced_spec \<Rightarrow> string \<Rightarrow> string
     \<Rightarrow> ((string \<times> string \<times> string) list \<times> string) option \<Rightarrow> (error + string) option" where
  "APISelector_call w sel api_spec plan background continuation =
     (let scratchpad = (case continuation of
                          None \<Rightarrow> []
                        | Some (history, instruction) \<Rightarrow> selector_scratchpad history instruction);
          chain_output = w_llm w (selector_request sel plan background scratchpad);
          api_plan = py_strip (remove_api_calling 0 chain_output)
      in if match_no_api_call api_plan \<noteq> None then Some (Inr api_plan)
         else selector_retry w sel api_spec plan background scratchpad chain_output api_plan)"

section \<open>The orchestrator (model/rest\_gpt.py)\<close>

text \<open>
  \<open>RestGPT.__init__\<close> normalises the scenario, raises on any value that is then not
  \<open>tmdb\<close> or \<open>spotify\<close>, and only afterwards builds the planner, the API selector and
  the chain. The steps it reaches are logged as \<open>init_event\<close>s, in order. The chain
  keeps the validated catalog, the field \<open>api_spec\<close>, here \<open>g_api_spec\<close>. The documents
  of the catalog are the same objects in the selector, the orchestrator and every Caller,
  so one catalog, in the state of a run, stands for all of them.
\<close>

datatype init_event = BuildPlanner string | BuildAPISelector string | BuildChain string

record restgpt =
  g_api_spec :: reduced_spec
  scenario :: string
  selector :: api_selector
  simple_parser :: bool
  max_iterations :: "nat option"
  max_execution_time :: "real option"

definition normalize_scenario :: "string \<Rightarrow> string" where
  "normalize_scenario scenario0 =
     (let scenario1 = (if scenario0 \<in> set [''TMDB'', ''Tmdb''] then ''tmdb'' else scenario0);
          scenario2 = (if scenario1 \<in> set [''Spotify''] then ''spotify'' else scenario1)
      in scenario2)"

text \<open>
  The part of the constructor after the check of the scenario: the planner, the selector,
  and the constructor of the chain, which validates the catalog again.
\<close>

definition build_components ::
  "reduced_spec \<Rightarrow> string \<Rightarrow> bool \<Rightarrow> init_event list \<times> (error + restgpt)" where
  "build_components api_spec sc simple =
     (case APISelector_init sc api_spec of
        Inl e \<Rightarrow> ([BuildPlanner sc, BuildAPISelector sc], Inl e)
      | Inr sel \<Rightarrow>
          (case validate_api_spec api_spec of
             Inl e \<Rightarrow> ([BuildPlanner sc, BuildAPISelector sc, BuildChain sc], Inl e)
           | Inr validated \<Rightarrow>
               ([BuildPlanner sc, BuildAPISelector sc, BuildChain sc],
                Inr \<lparr>g_api_spec = validated, scenario = sc, selector = sel,
                     simple_parser = simple, max_iterations = Some 15,
                     max_execution_time = None\<rparr>)))"

definition RestGPT_init ::
  "reduced_spec \<Rightarrow> string \<Rightarrow> bool \<Rightarrow> init_event list \<times> (error + restgpt)" where
  "RestGPT_init api_spec scenario0 simple =
     (let sc = normalize_scenario scenario0 in
      if sc \<notin> set [''tmdb'', ''spotify'']
      then ([], Inl (ValueError (''Invalid scenario '' @ sc)))
      else build_components api_spec sc simple)"

text \<open>
  The state of \<open>RestGPT._call\<close>. The catalog is part of it, a Caller may change it. The
  last three fields are counters for the properties below and take no part in the run:
  the bodies of the outer loop entered, the bodies of the inner loop entered, and the calls
  of the planner.
\<close>

record rest_state =
  rs_spec :: reduced_spec
  rs_clock :: nat
  rs_planner_history :: "(string \<times> string) list"
  rs_plan :: string
  rs_iterations :: nat
  rs_time_elapsed :: real
  rs_start_time :: real
  rs_outer_iterations :: nat
  rs_inner_rounds :: nat
  rs_planner_calls :: nat

definition get_api_selector_background :: "(string \<times> string) list \<Rightarrow> string" where
  "get_api_selector_background planner_history =
     (if length planner_history = 0 then ''No background''
      else py_join [newline] (map snd planner_history))"

definition should_continue_plan :: "string \<Rightarrow> bool" where
  "should_continue_plan plan = contains plan ''Continue''"

definition should_end :: "string \<Rightarrow> bool" where
  "should_end plan = contains plan ''Final Answer''"

text \<open>
  The Caller that the orchestrator builds for a step: the scenario and the parser flag of
  the orchestrator, every other field at its default.
\<close>

definition executor :: "restgpt \<Rightarrow> caller" where
  "executor g =
     \<lparr>c_scenario = scenario g, c_max_iterations = Some 15, c_max_execution_time = None,
      c_simple_parser = simple_parser g, c_with_response = False\<rparr>"

text \<open>
  The execution of one API plan: the direct answer after \<open>No API call needed.\<close>, or the
  result of a Caller, whose constructor validates the catalog; with it the catalog and the
  clock as the Caller left them.
\<close>

definition execute_api_plan ::
  "world \<Rightarrow> restgpt \<Rightarrow> reduced_spec \<Rightarrow> nat \<Rightarrow> string \<Rightarrow> string
     \<Rightarrow> ((error + string) \<times> reduced_spec \<times> nat) option" where
  "execute_api_plan w g api_spec clock api_plan background =
     (case match_no_api_call api_plan of
        Some answer \<Rightarrow> Some (Inr answer, api_spec, clock)
      | None \<Rightarrow>
          (case validate_api_spec api_spec of
             Inl e \<Rightarrow> Some (Inl e, api_spec, clock)
           | Inr validated \<Rightarrow>
               (case Caller_call w (executor g) validated clock api_plan background of
                  None \<Rightarrow> None
                | Some (r, cst) \<Rightarrow> Some (r, cs_spec cst, cs_clock cst))))"

text \<open>The state after a step: the history grows and the planner is asked again.\<close>

definition after_step ::
  "world \<Rightarrow> string \<Rightarrow> rest_state \<Rightarrow> string \<Rightarrow> reduced_spec \<Rightarrow> nat \<Rightarrow> rest_state" where
  "after_step w query st execution_res api_spec' clock' =
     st\<lparr>rs_spec := api_spec', rs_clock := clock',
        rs_planner_history := rs_planner_history st @ [(rs_plan st, execution_res)],
        rs_plan := w_planner w query (rs_planner_history st @ [(rs_plan st, execution_res)]),
        rs_planner_calls := rs_planner_calls st + 1\<rparr>"

text \<open>The inner loop, \<open>while self._should_continue_plan(plan)\<close>.\<close>

partial_function (option) continuation_loop ::
  "world \<Rightarrow> restgpt \<Rightarrow> string \<Rightarrow> string \<Rightarrow> rest_state \<Rightarrow> (string \<times> string \<times> string) list
     \<Rightarrow> (error + rest_state) option" where
  "continuation_loop w g query top_plan st api_selector_history =
     (if should_continue_plan (rs_plan st) then
        (case APISelector_call w (selector g) (rs_spec st) top_plan
                (get_api_selector_background (rs_planner_history st))
                (Some (api_selector_history, rs_plan st)) of
           None \<Rightarrow> None
         | Some (Inl e) \<Rightarrow> Some (Inl e)
         | Some (Inr api_plan) \<Rightarrow>
             (case execute_api_plan w g (rs_spec st) (rs_clock st) api_plan
                     (get_api_selector_background (rs_planner_history st)) of
                None \<Rightarrow> None
              | Some (Inl e, api_spec', clock') \<Rightarrow> Some (Inl e)
              | Some (Inr execution_res, api_spec', clock') \<Rightarrow>
                  continuation_loop w g query top_plan
                    ((after_step w query st execution_res api_spec' clock')
                       \<lparr>rs_inner_rounds := rs_inner_rounds st + 1\<rparr>)
                    (api_selector_history @ [(rs_plan st, api_plan, execution_res)])))
      else Some (Inr st))"

declare continuation_loop.simps [code]

text \<open>The outer loop, \<open>while self._should_continue(iterations, time_elapsed)\<close>.\<close>

partial_function (option) outer_loop ::
  "world \<Rightarrow> restgpt \<Rightarrow> string \<Rightarrow> rest_state \<Rightarrow> (error + rest_state) option" where
  "outer_loop w g query st =
     (if should_continue (max_iterations g) (max_execution_time g)
           (rs_iterations st) (rs_time_elapsed st)
      then
        (case APISelector_call w (selector g) (rs_spec st) (rs_plan st)
                (get_api_selector_background (rs_planner_history st)) None of
           None \<Rightarrow> None
         | Some (Inl e) \<Rightarrow> Some (Inl e)
         | Some (Inr api_plan) \<Rightarrow>
             (case execute_api_plan w g (rs_spec st) (rs_clock st) api_plan
                     (get_api_selector_background (rs_planner_history st)) of
                None \<Rightarrow> None
              | Some (Inl e, api_spec', clock') \<Rightarrow> Some (Inl e)
              | Some (Inr execution_res, api_spec', clock') \<Rightarrow>
                  (case continuation_loop w g query (rs_plan st)
                          ((after_step w query st execution_res api_spec' clock')
                             \<lparr>rs_outer_iterations := rs_outer_iterations st + 1\<rparr>)
                          [(rs_plan st, api_plan, execution_res)] of
                     None \<Rightarrow> None
                   | Some (Inl e) \<Rightarrow> Some (Inl e)
                   | Some (Inr st') \<Rightarrow>
                       if should_end (rs_plan st') then Some (Inr st')
                       else outer_loop w g query
                              (st'\<lparr>rs_iterations := rs_iterations st' + 1,
                                   rs_time_elapsed := w_time w (rs_clock st') - rs_start_time st',
                                   rs_clock := rs_clock st' + 1\<rparr>))))
      else Some (Inr st))"

declare outer_loop.simps [code]

definition initial_rest_state :: "world \<Rightarrow> restgpt \<Rightarrow> nat \<Rightarrow> string \<Rightarrow> rest_state" where
  "initial_rest_state w g clock query =
     \<lparr>rs_spec = g_api_spec g, rs_clock = clock + 1, rs_planner_history = [],
      rs_plan = w_planner w query [], rs_iterations = 0, rs_time_elapsed = 0,
      rs_start_time = w_time w clock, rs_outer_iterations = 0, rs_inner_rounds = 0,
      rs_planner_calls = 1\<rparr>"

text \<open>\<open>RestGPT._call\<close>: the result is the last plan; the final state comes with it.\<close>

definition RestGPT_call ::
  "world \<Rightarrow> restgpt \<Rightarrow> nat \<Rightarrow> string \<Rightarrow> (error + (string \<times> rest_state)) option" where
  "RestGPT_call w g clock query =
     (case outer_loop w g query (initial_rest_state w g clock query) of
        None \<Rightarrow> None
      | Some (Inl e) \<Rightarrow> Some (Inl e)
      | Some (Inr st) \<Rightarrow> Some (Inr (rs_plan st, st)))"

section \<open>Example worlds\<close>

text \<open>
  Worlds for the concrete runs below. The tokenizer makes one token of every character,
  the clock advances by one at every reading, and \<open>json.loads\<close> is the reference model.
\<close>

definition example_world ::
  "(llm_request \<Rightarrow> string) \<Rightarrow> (string \<Rightarrow> pyval \<Rightarrow> exec_result)
     \<Rightarrow> (string \<Rightarrow> pyval \<Rightarrow> pyval \<Rightarrow> pyval \<Rightarrow> error + (int \<times> string))
     \<Rightarrow> (string \<Rightarrow> (string \<times> string) list \<Rightarrow> string) \<Rightarrow> world" where
  "example_world answers run http planner =
     \<lparr>w_llm = answers, w_exec_python = run, w_http = http, w_loads = json_loads,
      w_json_dumps = (\<lambda>v. ''{}''), w_yaml_dump = (\<lambda>v. ''docs''),
      w_encode = map of_char, w_decode = map char_of, w_time = (\<lambda>k. real k),
      w_planner = planner\<rparr>"

text \<open>
  A completion service for the parser: a program that reads a missing key, then a program
  that reads the key \<open>id\<close>, then a sentence. The interpreter raises on the first program
  and answers the second with the given result.
\<close>

definition parser_answers :: "llm_request \<Rightarrow> string" where
  \<open>parser_answers request =
     (case request of
        CodeParsingSchemaRequest a b c d e f g \<Rightarrow> ''print(data["x"])''
      | CodeParsingResponseRequest a b c d e f \<Rightarrow> ''print(data["id"])''
      | _ \<Rightarrow> ''The id is 7'')\<close>

definition parser_interpreter :: "exec_result \<Rightarrow> string \<Rightarrow> pyval \<Rightarrow> exec_result" where
  \<open>parser_interpreter second command data =
     (if command = ''print(data["x"])'' then Raised ''x'' else second)\<close>

definition no_requests :: "string \<Rightarrow> pyval \<Rightarrow> pyval \<Rightarrow> pyval \<Rightarrow> error + (int \<times> string)" where
  "no_requests method url params body = Inl (RuntimeError ''no service'')"

definition no_planner :: "string \<Rightarrow> (string \<times> string) list \<Rightarrow> string" where
  "no_planner query history = []"

definition example_parser :: response_parser where
  "example_parser =
     \<lparr>rp_api_path = ''/movie/7'', rp_api_description = PStr ''d'', rp_schema = Some ''{}'',
      rp_example = ''No example provided''\<rparr>"

definition example_inputs :: parser_inputs where
  \<open>example_inputs =
     \<lparr>pi_query = PStr ''What is the id?'', pi_json = ''{"id": 7}'', pi_api_param = PDict [],
      pi_response_description = PStr ''a movie''\<rparr>\<close>

text \<open>
  A response of \<open>n + 20\<close> characters, and so of as many tokens: the object with the
  members \<open>id\<close> and \<open>pad\<close>, the latter a string of \<open>n\<close> letters.
\<close>

definition padded_json :: "nat \<Rightarrow> string" where
  \<open>padded_json n = ''{"id": 7, "pad": "'' @ replicate n (CHR ''a'') @ ''"}''\<close>

definition padded_inputs :: "nat \<Rightarrow> parser_inputs" where
  "padded_inputs n = example_inputs\<lparr>pi_json := padded_json n\<rparr>"

text \<open>
  A catalog of one endpoint of the movie service, a plan that names it, and a Caller with
  a budget of two turns. A turn of the completion service asks for the credits of a movie;
  the two turns differ in their description. The completion service answers the Caller's
  first request with \<open>first\<close>, its later ones with \<open>second\<close>, and a request of the
  parser to summarise a response with the response it was given. The REST service answers
  every request with the given status and text.
\<close>

definition movie_catalog :: reduced_spec where
  "movie_catalog =
     \<lparr>servers = PList [PDict [(KStr ''url'', PStr ''https://api.themoviedb.org/3'')]],
      description = PStr ''movies'',
      endpoints = [(''GET /movie/{movie_id}/credits'', PStr ''Get the credits.'',
                    PDict [(KStr ''description'', PStr ''Get the credits.'')])]\<rparr>"

definition movie_plan :: string where
  "movie_plan = ''GET /movie/18329/credits to get credits''"

definition two_turn_caller :: caller where
  "two_turn_caller =
     \<lparr>c_scenario = ''tmdb'', c_max_iterations = Some 2, c_max_execution_time = None,
      c_simple_parser = False, c_with_response = False\<rparr>"

definition credits_turn :: "string \<Rightarrow> string" where
  \<open>credits_turn note =
     ''Operation: GET\<newline>Input: {"url": "https://api.themoviedb.org/3/movie/18329/credits", "description": "''
     @ note @ ''", "output_instructions": "Who directed it?"}''\<close>

definition caller_answers :: "string \<Rightarrow> string \<Rightarrow> llm_request \<Rightarrow> string" where
  "caller_answers first second request =
     (case request of
        CallerRequest api_url api_docs api_plan background scratchpad \<Rightarrow>
          if scratchpad = [] then first else second
      | LLMSummarizeRequest api_path api_description query json api_param response_description \<Rightarrow>
          ''The response says: '' @ json
      | _ \<Rightarrow> ''The director is Akira Kurosawa'')"

definition no_interpreter :: "string \<Rightarrow> pyval \<Rightarrow> exec_result" where
  "no_interpreter command data = Raised []"

definition fixed_response ::
  "int \<Rightarrow> string \<Rightarrow> string \<Rightarrow> pyval \<Rightarrow> pyval \<Rightarrow> pyval \<Rightarrow> error + (int \<times> string)" where
  "fixed_response status_code response_text method url params body =
     Inr (status_code, response_text)"

text \<open>
  What a run of the Caller shows: its result and the turns it performed; and what the
  parser answered in the turns that were carried out.
\<close>

definition caller_outcome ::
  "((error + string) \<times> caller_state) option \<Rightarrow> ((error + string) \<times> string list) option" where
  "caller_outcome run = map_option (\<lambda>(r, st). (r, cs_turns st)) run"

definition parser_results :: "((error + string) \<times> caller_state) option \<Rightarrow> string list option" where
  "parser_results run = map_option (\<lambda>(r, st). map snd (cs_steps st)) run"

text \<open>
  A planner that follows a script: \<open>Continue\<close> on its first two calls, which are the
  calls with a history of less than two steps, and then \<open>Final Answer: done\<close>. The
  completion service answers the selector with a direct answer, so that no Caller runs.
\<close>

definition scripted_planner :: "string \<Rightarrow> (string \<times> string) list \<Rightarrow> string" where
  "scripted_planner query history =
     (if length history < 2 then ''Continue'' else ''Final Answer: done'')"

definition direct_answers :: "llm_request \<Rightarrow> string" where
  "direct_answers request = ''No API call needed. The answer is known''"

definition example_orchestrator :: restgpt where
  "example_orchestrator =
     \<lparr>g_api_spec = movie_catalog, scenario = ''tmdb'',
      selector = \<lparr>as_scenario = ''tmdb'',
                  as_endpoints = ''GET /movie/{movie_id}/credits Get the credits''\<rparr>,
      simple_parser = False, max_iterations = Some 15, max_execution_time = None\<rparr>"

text \<open>
  What a run of the orchestrator shows: its result, the bodies of the outer loop and of the
  inner loop it entered, and the calls of the planner.
\<close>

definition orchestrator_outcome ::
  "(error + (string \<times> rest_state)) option \<Rightarrow> (error + (string \<times> nat \<times> nat \<times> nat)) option" where
  "orchestrator_outcome run =
     map_option
       (map_sum id
          (\<lambda>(r, st). (r, rs_outer_iterations st, rs_inner_rounds st, rs_planner_calls st)))
       run"

text \<open>
  The wording of the specification, for comparison: an alias of a service is its name in
  any capitalisation.
\<close>

definition to_lower :: "char \<Rightarrow> char" where
  "to_lower c = (if (65::nat) \<le> of_char c \<and> of_char c \<le> (90::nat)
      then char_of (of_char c + (32::nat)) else c)"

definition case_insensitive_alias :: "string \<Rightarrow> string \<Rightarrow> bool" where
  "case_insensitive_alias service s = (map to_lower s = service)"


section \<open>Properties of the JSON repair\<close>

lemma py_split_nonempty: "py_split sep s \<noteq> []"
  by (induction sep s rule: py_split.induct) (auto split: list.splits)

lemma get_item_lt: "i < length xs \<Longrightarrow> get_item xs i = Inr (xs ! i)"
  by (simp add: get_item_def)

lemma get_item_ge: "length xs \<le> i \<Longrightarrow> get_item xs i = Inl IndexError"
  by (simp add: get_item_def)

lemma fix_line_inner:
  assumes "Suc i < length data"
  shows "\<exists>data'. fix_line data i = Inr data' \<and> length data' = length data
           \<and> (\<forall>j. j \<noteq> i \<longrightarrow> data' ! j = data ! j)"
  using assms by (auto simp: fix_line_def Let_def get_item_def)

lemma fix_line_last:
  assumes "Suc i = length data" "data ! i \<notin> set brackets" "\<not> ends_with_any (data ! i) brackets"
  shows "fix_line data i = Inl IndexError"
  using assms by (auto simp: fix_line_def Let_def get_item_def)

lemma fix_lines_upt_last:
  assumes "k < length data"
    and "data ! (length data - 1) \<notin> set brackets"
    and "\<not> ends_with_any (data ! (length data - 1)) brackets"
  shows "fix_lines [k ..< length data] data = Inl IndexError"
  using assms
proof (induction "length data - k" arbitrary: k data)
  case 0
  then show ?case by simp
next
  case (Suc m)
  have upt: "[k ..< length data] = k # [Suc k ..< length data]"
    using Suc.prems(1) by (simp add: upt_conv_Cons)
  show ?case
  proof (cases "Suc k = length data")
    case True
    then have "length data - 1 = k" by simp
    then have "fix_line data k = Inl IndexError"
      using True Suc.prems(2,3) fix_line_last [of k data] by simp
    then show ?thesis by (simp add: upt)
  next
    case False
    then have lt: "Suc k < length data" using Suc.prems(1) by simp
    from fix_line_inner [OF lt] obtain data' where
      d: "fix_line data k = Inr data'" "length data' = length data"
         "\<forall>j. j \<noteq> k \<longrightarrow> data' ! j = data ! j" by blast
    have last_same: "data' ! (length data' - 1) = data ! (length data - 1)"
      using d lt by auto
    have "fix_lines [Suc k ..< length data'] data' = Inl IndexError"
    proof (rule Suc.hyps(1))
      show "m = length data' - Suc k" using Suc.hyps(2) d(2) by simp
      show "Suc k < length data'" using lt d(2) by simp
      show "data' ! (length data' - 1) \<notin> set brackets" using last_same Suc.prems(2) by simp
      show "\<not> ends_with_any (data' ! (length data' - 1)) brackets"
        using last_same Suc.prems(3) by simp
    qed
    then show ?thesis using d by (simp add: upt)
  qed
qed

text \<open>
  C10. The repair is not total. When the trimmed text does not decode and its last line,
  stripped, is neither one of the four bracket lines nor ends in a bracket, the walk over
  the lines reads \<open>data[i + 1]\<close> at the last index and raises \<open>IndexError\<close>; the
  one-line text \<open>a\<close> is such an input.
\<close>

theorem fix_json_error_index_error:
  assumes "loads (trim_json d) = Inl JSONDecodeError"
    and "py_strip (last (py_split [newline] (trim_json d))) \<notin> set brackets"
    and "\<not> ends_with_any (py_strip (last (py_split [newline] (trim_json d)))) brackets"
  shows "fix_json_error loads d return_str = Inl IndexError"
proof -
  define lines where "lines = map py_strip (py_split [newline] (trim_json d))"
  have ne: "lines \<noteq> []" by (simp add: lines_def py_split_nonempty)
  have "last lines = py_strip (last (py_split [newline] (trim_json d)))"
    by (simp add: lines_def last_map py_split_nonempty)
  then have "lines ! (length lines - 1) = py_strip (last (py_split [newline] (trim_json d)))"
    using ne by (simp add: last_conv_nth)
  then have "fix_lines [0 ..< length lines] lines = Inl IndexError"
    using fix_lines_upt_last [of 0 lines] ne assms(2,3) by simp
  then show ?thesis
    using assms(1) by (simp add: fix_json_error_def lines_def Let_def)
qed

theorem fix_json_error_index_error_witness:
  "json_loads (trim_json ''a'') = Inl JSONDecodeError
   \<and> py_strip (last (py_split [newline] (trim_json ''a''))) = ''a''
   \<and> ''a'' \<notin> set brackets
   \<and> \<not> ends_with_any ''a'' brackets
   \<and> fix_json_error json_loads ''a'' True = Inl IndexError"
proof -
  have h1: "json_loads (trim_json ''a'') = Inl JSONDecodeError" by code_simp
  have h2: "py_strip (last (py_split [newline] (trim_json ''a''))) = ''a''" by code_simp
  have h3: "''a'' \<notin> set brackets" by code_simp
  have h4: "\<not> ends_with_any ''a'' brackets" by code_simp
  show ?thesis
    using h1 h2 h3 h4 fix_json_error_index_error [of json_loads "''a''" True] by simp
qed

text \<open>
  The claim C9 as worded fails in its second part: the text \<open>`{}`\<close> decodes once its
  backquotes are trimmed, and the repair returns \<open>{}\<close>, not the text it was given.
\<close>

theorem fix_json_error_trims_counterexample:
  \<open>json_loads (trim_json ''`{}`'') = Inr (PDict [])
   \<and> fix_json_error json_loads ''`{}`'' True = Inr (RStr ''{}'')
   \<and> ''{}'' \<noteq> ''`{}`''\<close>
  by code_simp

text \<open>
  C9, amended. The object with the missing comma is repaired to a text that decodes to the
  object with the members \<open>a = 1\<close> and \<open>b = 2\<close>; and a text that decodes once its
  surrounding whitespace, quotes, commas and backquotes are trimmed is returned as
  trimmed, with no repair applied, whatever the decoder is.
\<close>

theorem fix_json_error_repairs:
  \<open>fix_json_error json_loads ''{\<newline>  "a": 1\<newline>  "b": 2\<newline>}'' True
     = Inr (RStr ''{ "a": 1, "b": 2 }'')
   \<and> json_loads ''{ "a": 1, "b": 2 }'' = Inr (PDict [(KStr ''a'', PInt 1), (KStr ''b'', PInt 2)])
   \<and> (loads (trim_json d) = Inr v \<longrightarrow>
        fix_json_error loads d return_str = Inr (RStr (trim_json d)))\<close>
proof (intro conjI impI)
  show \<open>fix_json_error json_loads ''{\<newline>  "a": 1\<newline>  "b": 2\<newline>}'' True
     = Inr (RStr ''{ "a": 1, "b": 2 }'')\<close>
    by code_simp
  show \<open>json_loads ''{ "a": 1, "b": 2 }'' = Inr (PDict [(KStr ''a'', PInt 1), (KStr ''b'', PInt 2)])\<close>
    by code_simp
  show "fix_json_error loads d return_str = Inr (RStr (trim_json d))" if "loads (trim_json d) = Inr v"
    using that by (simp add: fix_json_error_def Let_def)
qed

theorem fix_json_error_repairs_witness:
  \<open>json_loads (trim_json '' `{"a": [1, 2]}`, '') = Inr (PDict [(KStr ''a'', PList [PInt 1, PInt 2])])
   \<and> trim_json '' `{"a": [1, 2]}`, '' = ''{"a": [1, 2]}''
   \<and> fix_json_error json_loads '' `{"a": [1, 2]}`, '' True = Inr (RStr ''{"a": [1, 2]}'')\<close>
proof -
  have h1: \<open>json_loads (trim_json '' `{"a": [1, 2]}`, '')
              = Inr (PDict [(KStr ''a'', PList [PInt 1, PInt 2])])\<close> by code_simp
  have h2: \<open>trim_json '' `{"a": [1, 2]}`, '' = ''{"a": [1, 2]}''\<close> by code_simp
  show ?thesis
    using h1 h2
      fix_json_error_repairs
        [of json_loads \<open>'' `{"a": [1, 2]}`, ''\<close> \<open>PDict [(KStr ''a'', PList [PInt 1, PInt 2])]\<close> True]
    by simp
qed

section \<open>Properties of the orchestrator's construction\<close>

text \<open>
  The claim C8 as worded fails: \<open>SPOTIFY\<close> is the music service's name in another
  capitalisation, and the constructor raises on it.
\<close>

theorem scenario_alias_counterexample:
  "case_insensitive_alias ''spotify'' ''SPOTIFY''
   \<and> (\<forall>api_spec simple.
         RestGPT_init api_spec ''SPOTIFY'' simple
           = ([], Inl (ValueError ''Invalid scenario SPOTIFY'')))"
proof
  show "case_insensitive_alias ''spotify'' ''SPOTIFY''" by code_simp
  show "\<forall>api_spec simple.
         RestGPT_init api_spec ''SPOTIFY'' simple
           = ([], Inl (ValueError ''Invalid scenario SPOTIFY''))"
    by (simp add: RestGPT_init_def normalize_scenario_def)
qed

text \<open>
  C8, amended. The constructor accepts exactly \<open>TMDB\<close>, \<open>Tmdb\<close> and \<open>tmdb\<close> for the
  movie service and \<open>Spotify\<close> and \<open>spotify\<close> for the music service, and then builds its
  components for the normalised name; on every other value it raises \<open>ValueError\<close> before
  it builds the planner or the API selector. An orchestrator that is constructed has one of
  the two normalised names as its scenario.
\<close>

theorem scenario_validation:
  "RestGPT_init api_spec s simple =
     (if s \<in> {''TMDB'', ''Tmdb'', ''tmdb''} then build_components api_spec ''tmdb'' simple
      else if s \<in> {''Spotify'', ''spotify''} then build_components api_spec ''spotify'' simple
      else ([], Inl (ValueError (''Invalid scenario '' @ s))))
   \<and> (snd (RestGPT_init api_spec s simple) = Inr g \<longrightarrow>
        (s \<in> {''TMDB'', ''Tmdb'', ''tmdb''} \<and> scenario g = ''tmdb'')
        \<or> (s \<in> {''Spotify'', ''spotify''} \<and> scenario g = ''spotify''))"
proof -
  have eq: "RestGPT_init api_spec s simple =
     (if s \<in> {''TMDB'', ''Tmdb'', ''tmdb''} then build_components api_spec ''tmdb'' simple
      else if s \<in> {''Spotify'', ''spotify''} then build_components api_spec ''spotify'' simple
      else ([], Inl (ValueError (''Invalid scenario '' @ s))))"
    by (simp add: RestGPT_init_def normalize_scenario_def Let_def)
  have bc: "scenario g = sc" if "snd (build_components api_spec sc simple) = Inr g" for sc
    using that
    by (cases "APISelector_init sc api_spec"; cases "validate_api_spec api_spec")
       (auto simp: build_components_def)
  have "(s \<in> {''TMDB'', ''Tmdb'', ''tmdb''} \<and> scenario g = ''tmdb'')
        \<or> (s \<in> {''Spotify'', ''spotify''} \<and> scenario g = ''spotify'')"
    if r: "snd (RestGPT_init api_spec s simple) = Inr g"
  proof (cases "s \<in> {''TMDB'', ''Tmdb'', ''tmdb''}")
    case True
    then have "snd (build_components api_spec ''tmdb'' simple) = Inr g"
      using r eq by (simp only: if_True)
    then show ?thesis using bc True by blast
  next
    case False
    show ?thesis
    proof (cases "s \<in> {''Spotify'', ''spotify''}")
      case True
      then have "snd (build_components api_spec ''spotify'' simple) = Inr g"
        using r eq False by (simp only: if_True if_False)
      then show ?thesis using bc True by blast
    next
      case n: False
      have "snd (RestGPT_init api_spec s simple) = Inl (ValueError (''Invalid scenario '' @ s))"
        using eq False n by (simp only: if_False snd_conv)
      then show ?thesis using r by simp
    qed
  qed
  then show ?thesis using eq by blast
qed

theorem scenario_validation_witness:
  "RestGPT_init movie_catalog ''Tmdb'' False
     = ([BuildPlanner ''tmdb'', BuildAPISelector ''tmdb'', BuildChain ''tmdb''],
        Inr \<lparr>g_api_spec = movie_catalog, scenario = ''tmdb'',
             selector = \<lparr>as_scenario = ''tmdb'',
                         as_endpoints = ''GET /movie/{movie_id}/credits Get the credits''\<rparr>,
             simple_parser = False, max_iterations = Some 15, max_execution_time = None\<rparr>)
   \<and> RestGPT_init movie_catalog ''unknown'' False
     = ([], Inl (ValueError ''Invalid scenario unknown''))
   \<and> RestGPT_init (movie_catalog\<lparr>description := PNone\<rparr>) ''Tmdb'' False
     = ([BuildPlanner ''tmdb'', BuildAPISelector ''tmdb''], Inl (ValidationError ''api_spec''))"
proof -
  have b: "build_components movie_catalog ''tmdb'' False
     = ([BuildPlanner ''tmdb'', BuildAPISelector ''tmdb'', BuildChain ''tmdb''],
        Inr \<lparr>g_api_spec = movie_catalog, scenario = ''tmdb'',
             selector = \<lparr>as_scenario = ''tmdb'',
                         as_endpoints = ''GET /movie/{movie_id}/credits Get the credits''\<rparr>,
             simple_parser = False, max_iterations = Some 15, max_execution_time = None\<rparr>)"
    by code_simp
  have c: "build_components (movie_catalog\<lparr>description := PNone\<rparr>) ''tmdb'' False
     = ([BuildPlanner ''tmdb'', BuildAPISelector ''tmdb''], Inl (ValidationError ''api_spec''))"
    by code_simp
  show ?thesis
    using b c
      scenario_validation [of movie_catalog "''Tmdb''" False]
      scenario_validation [of movie_catalog "''unknown''" False]
      scenario_validation [of "movie_catalog\<lparr>description := PNone\<rparr>" "''Tmdb''" False]
    by simp
qed


section \<open>Properties of the Caller's turn parser\<close>











section \<open>Properties of the endpoint matcher\<close>














end
